theory Spec2Isabelle
  imports Main "HOL-Library.Word"
begin

section \<open>The composition root: \<open>src/main.cpp\<close>\<close>

text \<open>
  \<open>main.cpp\<close> is glue around collaborators that live outside the file: the command-line
  parser, \<open>getConfiguration\<close>, the binding classes and the asio event loop. The model
  keeps the control flow of \<open>main\<close> and \<open>getBindingPtr\<close> line by line and takes every
  collaborator's answer from an environment record, so that each \<open>return\<close>, each
  \<open>catch\<close> and each call of the source is one branch or one event of the model.
\<close>

subsection \<open>Data\<close>

text \<open>
  The configuration hierarchy: \<open>getBindingPtr\<close> distinguishes, by \<open>dynamic_cast\<close>, an
  \<open>SMBusConfiguration\<close>, a \<open>PcieConfiguration\<close> and anything else derived from
  \<open>Configuration\<close>. The bus parameters are opaque to \<open>main\<close> (\<open>'s\<close>, \<open>'p\<close>).
\<close>

datatype ('s, 'p) Configuration =
    SMBusConfiguration 's
  | PcieConfiguration 'p
  | OtherConfiguration

text \<open>
  The two binding classes, with the arguments of their constructors that are data: the
  object path and the configuration. The connection, the object server, the io context
  and the freshly made driver objects are handles shared with \<open>main\<close> and carry no
  information of their own.
\<close>

datatype ('s, 'p) MctpBinding =
    SMBusBinding string 's
  | PCIeBinding string 'p

text \<open>
  A call of a collaborator either returns or throws a \<open>std::exception\<close>, whose
  \<open>what()\<close> is the string. These are the exceptions the two \<open>catch\<close> clauses of
  \<open>main\<close> name.
\<close>

datatype 'a outcome = Returns 'a | Throws string

text \<open>
  \<open>CLI11_PARSE\<close> either leaves \<open>main\<close> with the parser's exit code or has filled
  \<open>binding\<close> (required) and possibly \<open>configPath\<close> (optional, with a default).
\<close>

datatype cli_result = ParseExit int | Parsed string "string option"

text \<open>
  What the event loop delivers while \<open>ioc.run()\<close> executes: one of the two signals
  of the \<open>signal_set\<close>, or a completion that belongs to the binding (driver data, a
  timer).
\<close>

datatype signal = SIGINT | SIGTERM

datatype loop_event = TerminationSignal signal | BindingEvent

record ('s, 'p) env =
  cli_parse :: cli_result
  getConfiguration :: "string \<Rightarrow> string \<Rightarrow> (string \<times> ('s, 'p) Configuration) option outcome"
  setDbusName :: "('s, 'p) MctpBinding \<Rightarrow> string \<Rightarrow> unit outcome"
  initializeBinding :: "('s, 'p) MctpBinding \<Rightarrow> unit outcome"
  loop_events :: "loop_event list"

datatype level = INFO | WARNING | ERR

text \<open>The observable actions of \<open>main\<close>, in the order the source performs them.\<close>

datatype ('s, 'p) event =
    SignalsAsyncWait
  | ConnectionCreated
  | GetConfigurationCalled string string
  | Log level string
  | ObjectServerCreated
  | RequestName string
  | BindingConstructed "('s, 'p) MctpBinding"
  | SetDbusName string
  | InitializeBinding
  | IocRun
  | BindingCallback
  | BindingReset
  | IocStop

text \<open>
  The part of the process state \<open>main\<close> and its signal handler share: the owning
  pointer \<open>bindingPtr\<close> (\<open>None\<close> is the null pointer), whether the io context has been
  stopped, and the actions so far.
\<close>

record ('s, 'p) proc =
  bindingPtr :: "('s, 'p) MctpBinding option"
  stopped :: bool
  trace :: "('s, 'p) event list"

definition proc_init :: "('s, 'p) proc" where
  "proc_init = \<lparr>bindingPtr = None, stopped = False, trace = []\<rparr>"

definition emit :: "('s, 'p) event \<Rightarrow> ('s, 'p) proc \<Rightarrow> ('s, 'p) proc" where
  "emit e s = s\<lparr>trace := trace s @ [e]\<rparr>"

subsection \<open>\<open>getBindingPtr\<close>\<close>

definition mctpBaseObj :: string where
  "mctpBaseObj = ''/xyz/openbmc_project/mctp''"

text \<open>Lines 12 to 37: two casts tried in order, and the null pointer when both fail.\<close>

fun getBindingPtr :: "('s, 'p) Configuration \<Rightarrow> ('s, 'p) MctpBinding option" where
  "getBindingPtr (SMBusConfiguration smbusConfig) = Some (SMBusBinding mctpBaseObj smbusConfig)"
| "getBindingPtr (PcieConfiguration pcieConfig) = Some (PCIeBinding mctpBaseObj pcieConfig)"
| "getBindingPtr OtherConfiguration = None"

subsection \<open>The signal handler and the event loop\<close>

text \<open>
  Lines 58 to 62: \<open>bindingPtr.reset(); ioc.stop();\<close>. The handler ignores the error
  code and the signal number it is given. \<open>bindingPtr\<close> is the only owner of the
  binding that the source shows, so resetting it is what destroys the binding.
\<close>

definition bindingPtr_reset :: "('s, 'p) proc \<Rightarrow> ('s, 'p) proc" where
  "bindingPtr_reset s = emit BindingReset (s\<lparr>bindingPtr := None\<rparr>)"

definition ioc_stop :: "('s, 'p) proc \<Rightarrow> ('s, 'p) proc" where
  "ioc_stop s = emit IocStop (s\<lparr>stopped := True\<rparr>)"

definition signal_handler :: "signal \<Rightarrow> ('s, 'p) proc \<Rightarrow> ('s, 'p) proc" where
  "signal_handler signum s = ioc_stop (bindingPtr_reset s)"

text \<open>
  \<open>ioc.run()\<close> dispatches what is delivered until the context is stopped. The list is
  the finite part of the deliveries considered; when it ends with the context not
  stopped, the loop is still waiting (the pending \<open>async_wait\<close> keeps it alive).
\<close>

fun ioc_run :: "loop_event list \<Rightarrow> ('s, 'p) proc \<Rightarrow> ('s, 'p) proc" where
  "ioc_run [] s = s"
| "ioc_run (e # es) s =
     (if stopped s then s
      else case e of
             TerminationSignal signum \<Rightarrow> ioc_run es (signal_handler signum s)
           | BindingEvent \<Rightarrow> ioc_run es (emit BindingCallback s))"

subsection \<open>\<open>main\<close>\<close>

definition default_configPath :: string where
  "default_configPath = ''/usr/share/mctp/mctp_config.json''"

text \<open>
  \<open>std::string::c_str()\<close> as its receiver reads it: a \<open>std::string\<close> may hold a NUL
  character, and a callee that takes \<open>const char*\<close> sees the characters before the
  first one only. \<open>request_name\<close> (line 90) and the logger (line 93) are given
  \<open>c_str()\<close>; \<open>setDbusName\<close> (line 106) is given the \<open>std::string\<close> itself. The
  text of an exception comes from \<open>what()\<close>, which is a C string already, and the other
  log messages are literals, so \<open>c_str()\<close> changes nothing there.
\<close>

definition c_str :: "string \<Rightarrow> string" where
  "c_str s = takeWhile (\<lambda>c. c \<noteq> CHR 0x00) s"

text \<open>
  The result is the final process state and the value \<open>main\<close> returns; \<open>None\<close> when
  \<open>ioc.run()\<close> has not returned within the deliveries considered.
\<close>

definition main :: "('s, 'p) env \<Rightarrow> ('s, 'p) proc \<times> int option" where
  "main env =
     (case cli_parse env of
        ParseExit code \<Rightarrow> (proc_init, Some code)
      | Parsed binding path \<Rightarrow>
          let configPath = (case path of None \<Rightarrow> default_configPath | Some p \<Rightarrow> p);
              s0 = emit ConnectionCreated (emit SignalsAsyncWait proc_init);
              s1 = emit (GetConfigurationCalled binding configPath) s0
          in (case getConfiguration env binding configPath of
               Throws what \<Rightarrow>
                 (emit (Log ERR ''Invalid configuration; exiting'')
                    (emit (Log WARNING (''Exception: '' @ what)) s1), Some (- 1))
             | Returns None \<Rightarrow>
                 (emit (Log ERR ''Could not load any configuration; exiting'') s1, Some (- 1))
             | Returns (Some (mctpdName, mctpdConfiguration)) \<Rightarrow>
                 let mctpServiceName = ''xyz.openbmc_project.'' @ mctpdName;
                     s2 = emit (RequestName (c_str mctpServiceName)) (emit ObjectServerCreated s1);
                     s3 = emit (Log INFO (c_str (''Starting MCTP service: '' @ mctpServiceName))) s2
                 in (case getBindingPtr mctpdConfiguration of
                      None \<Rightarrow> (emit (Log ERR ''Unable to create MCTP binding'') s3, Some (- 1))
                    | Some b \<Rightarrow>
                        let s4 = emit (BindingConstructed b) (s3\<lparr>bindingPtr := Some b\<rparr>);
                            s5 = emit (SetDbusName mctpServiceName) s4
                        in (case setDbusName env b mctpServiceName of
                             Throws what \<Rightarrow>
                               (emit (Log ERR ''Failed to intialize MCTP binding; exiting'')
                                  (emit (Log WARNING (''Exception: '' @ what)) s5), Some (- 1))
                           | Returns _ \<Rightarrow>
                               let s6 = emit InitializeBinding s5
                               in (case initializeBinding env b of
                                    Throws what \<Rightarrow>
                                      (emit (Log ERR ''Failed to intialize MCTP binding; exiting'')
                                         (emit (Log WARNING (''Exception: '' @ what)) s6), Some (- 1))
                                  | Returns _ \<Rightarrow>
                                      let s7 = ioc_run (loop_events env) (emit IocRun s6)
                                      in (s7, if stopped s7 then Some 0 else None))))))"

subsection \<open>Reading traces\<close>

text \<open>
  \<open>precedes a b tr\<close>: scanning \<open>tr\<close> from the start, \<open>a\<close> is met before any \<open>b\<close>
  (or neither occurs).
\<close>

fun precedes :: "'a \<Rightarrow> 'a \<Rightarrow> 'a list \<Rightarrow> bool" where
  "precedes a b [] = True"
| "precedes a b (x # xs) = (if x = a then True else if x = b then False else precedes a b xs)"

text \<open>
  A run used to exercise the theorems: the SMBus binding is selected, the configuration
  loads under the name \<open>MCTP_SMBus\<close>, every call succeeds, and the loop receives the
  given deliveries.
\<close>

definition smbus_env :: "loop_event list \<Rightarrow> (nat, nat) env" where
  "smbus_env evs =
     \<lparr>cli_parse = Parsed ''smbus'' None,
      getConfiguration = (\<lambda>binding configPath. Returns (Some (''MCTP_SMBus'', SMBusConfiguration 0))),
      setDbusName = (\<lambda>b name. Returns ()),
      initializeBinding = (\<lambda>b. Returns ()),
      loop_events = evs\<rparr>"

section \<open>The Protocol Engine\<close>

text \<open>
  The sources of the Protocol Engine (EID pool, fragmentation, reassembly) are not among
  the files of the repository at hand; only the composition root is. The definitions of
  this section follow sections 3, 4.1 and 6 of the specification, sentence by sentence.
  Timers are left out: the reassembly deadline and the periodic sweep play no part in
  the properties stated below, which concern packets handled with no timer event in
  between. Transmission itself belongs to the binding: \<open>submit_outbound\<close> yields the
  packets it hands to \<open>transmit\<close>, with the physical address of each.
\<close>

subsection \<open>Data model\<close>

type_synonym eid = "8 word"
type_synonym byte = "8 word"
type_synonym message_tag = "3 word"
type_synonym packet_seq = "2 word"

text \<open>
  Modelled from the spec: the Packet of section 3, whose declaration is missing. One
  field per header field of section 6, and the payload chunk. The sequence number has
  two bits, so \<open>+ 1\<close> on it cycles modulo 4.
\<close>

record packet =
  dest_eid :: eid
  src_eid :: eid
  msg_tag :: message_tag
  pkt_seq :: packet_seq
  som :: bool
  eom :: bool
  tag_owner :: bool
  payload :: "byte list"

text \<open>
  Modelled from the spec: the Reassembly Context of section 3, whose declaration is
  missing: the partial message bytes and the expected next sequence number, together
  with the source and destination of the message being assembled.
\<close>

record reassembly_context =
  ctx_src :: eid
  ctx_dest :: eid
  buffer :: "byte list"
  expected_seq :: packet_seq

text \<open>
  Modelled from the spec: the Message of section 3 as delivered upward, whose
  declaration is missing: the peer it is attributed to, its destination, its tag and its
  bytes. The header of section 6 has no field for the message type, so a received
  message carries none.
\<close>

record message =
  msg_peer :: eid
  msg_dest :: eid
  msg_tag_of :: message_tag
  msg_bytes :: "byte list"

datatype eid_error = PoolExhausted

datatype send_error = UnknownEndpoint | TagExhausted

text \<open>
  Modelled from the spec: the state the Engine owns, whose declaration is missing. The
  Endpoint Records (physical address and EID; they are the routing table), the two
  reserved EID values, the binding's MTU, the tags in flight per peer with the position
  of the tag cycle, and at most one Reassembly Context per peer and tag.
\<close>

record 'pa engine =
  own_eid :: eid
  mtu :: nat
  null_eid :: eid
  broadcast_eid :: eid
  endpoints :: "('pa \<times> eid) list"
  tags_in_flight :: "(eid \<times> message_tag) list"
  next_tag :: message_tag
  contexts :: "eid \<times> message_tag \<rightharpoonup> reassembly_context"

subsection \<open>The EID pool\<close>

definition all_eids :: "eid list" where
  "all_eids = map of_nat [0..<256]"

text \<open>
  Modelled from the spec: the assignable pool of section 3, whose code is missing: the
  8-bit values but the two reserved ones, in ascending order.
\<close>

definition eid_pool :: "'pa engine \<Rightarrow> eid list" where
  "eid_pool s = filter (\<lambda>e. e \<noteq> null_eid s \<and> e \<noteq> broadcast_eid s) all_eids"

definition eids_in_use :: "'pa engine \<Rightarrow> eid set" where
  "eids_in_use s = snd ` set (endpoints s)"

text \<open>
  Modelled from the spec: \<open>allocate_eid\<close> of section 4.1, whose code is missing. It
  assigns the lowest EID of the pool that is not in use and records it for the
  physical address; it fails with \<open>PoolExhausted\<close> when none remains.
\<close>

definition allocate_eid :: "'pa \<Rightarrow> 'pa engine \<Rightarrow> eid_error + (eid \<times> 'pa engine)" where
  "allocate_eid physical_address s =
     (case find (\<lambda>e. e \<notin> eids_in_use s) (eid_pool s) of
        None \<Rightarrow> Inl PoolExhausted
      | Some e \<Rightarrow> Inr (e, s\<lparr>endpoints := endpoints s @ [(physical_address, e)]\<rparr>))"

text \<open>
  Modelled from the spec: \<open>release_eid\<close> of section 4.1, whose code is missing. It
  returns the EID to the pool: no Endpoint Record holds it any more.
\<close>

definition release_eid :: "eid \<Rightarrow> 'pa engine \<Rightarrow> 'pa engine" where
  "release_eid e s = s\<lparr>endpoints := filter (\<lambda>r. snd r \<noteq> e) (endpoints s)\<rparr>"

text \<open>
  The invariant of the pool: no two Endpoint Records hold the same EID, and every EID in
  use comes from the pool.
\<close>

definition pool_inv :: "'pa engine \<Rightarrow> bool" where
  "pool_inv s \<longleftrightarrow> distinct (map snd (endpoints s)) \<and> eids_in_use s \<subseteq> set (eid_pool s)"

text \<open>
  The scenario of section 8: \<open>allocate_eid\<close> called for one physical address after the
  other, stopping at the first failure.
\<close>

fun allocate_all :: "'pa list \<Rightarrow> 'pa engine \<Rightarrow> eid_error + (eid list \<times> 'pa engine)" where
  "allocate_all [] s = Inr ([], s)"
| "allocate_all (pa # pas) s =
     (case allocate_eid pa s of
        Inl err \<Rightarrow> Inl err
      | Inr (e, s') \<Rightarrow>
          (case allocate_all pas s' of
             Inl err \<Rightarrow> Inl err
           | Inr (es, s'') \<Rightarrow> Inr (e # es, s'')))"

text \<open>
  Modelled from the spec: the routing-table lookups of section 4.2, whose code is
  missing, backed by the Endpoint Records.
\<close>

definition eid_of :: "'pa engine \<Rightarrow> 'pa \<Rightarrow> eid option" where
  "eid_of s physical_address = map_of (endpoints s) physical_address"

definition physical_address_of :: "'pa engine \<Rightarrow> eid \<Rightarrow> 'pa option" where
  "physical_address_of s e = map_option fst (find (\<lambda>r. snd r = e) (endpoints s))"

subsection \<open>Fragmentation\<close>

text \<open>
  Modelled from the spec: the fragmentation step of \<open>submit_outbound\<close> (section 4.1),
  whose code is missing. The payload is cut into chunks of at most MTU bytes; the first
  packet carries the start-of-message flag, the last one the end-of-message flag, and
  the sequence number goes up by one (modulo 4) from packet to packet. A message always
  has a last packet, so an empty payload travels in one empty packet. An MTU of 0 cannot
  carry a byte; the guard only makes the function total.
\<close>

function fragment :: "nat \<Rightarrow> packet \<Rightarrow> bool \<Rightarrow> packet_seq \<Rightarrow> byte list \<Rightarrow> packet list" where
  "fragment m hdr first sq bytes =
     (if m = 0 \<or> length bytes \<le> m
      then [hdr\<lparr>pkt_seq := sq, som := first, eom := True, payload := bytes\<rparr>]
      else hdr\<lparr>pkt_seq := sq, som := first, eom := False, payload := take m bytes\<rparr>
           # fragment m hdr False (sq + 1) (drop m bytes))"
  by pat_completeness auto
termination
  by (relation "measure (\<lambda>(m, hdr, first, sq, bytes). length bytes)") auto

declare fragment.simps [simp del]

text \<open>
  Modelled from the spec: the tag choice of \<open>submit_outbound\<close>, whose code is missing.
  The eight tags are tried in cyclic order from \<open>next_tag\<close>; the first one not in
  flight to that peer is taken.
\<close>

definition free_tag :: "'pa engine \<Rightarrow> eid \<Rightarrow> message_tag option" where
  "free_tag s peer =
     find (\<lambda>t. (peer, t) \<notin> set (tags_in_flight s)) (map (\<lambda>i. next_tag s + of_nat i) [0..<8])"

text \<open>
  Modelled from the spec: \<open>submit_outbound\<close> of section 4.1, whose code is missing. It
  fails with \<open>UnknownEndpoint\<close> when the destination has no routing entry and with
  \<open>TagExhausted\<close> when all tags to that peer are in flight; otherwise it fragments the
  payload and forwards the packets, in order, to the binding's \<open>transmit\<close>. The header
  of section 6 has no field for the message type, so the packets do not carry it.
\<close>

definition submit_outbound ::
  "eid \<Rightarrow> byte \<Rightarrow> byte list \<Rightarrow> 'pa engine \<Rightarrow> send_error + (('pa \<times> packet) list \<times> 'pa engine)" where
  "submit_outbound destination_eid message_type bytes s =
     (case physical_address_of s destination_eid of
        None \<Rightarrow> Inl UnknownEndpoint
      | Some pa \<Rightarrow>
          (case free_tag s destination_eid of
             None \<Rightarrow> Inl TagExhausted
           | Some t \<Rightarrow>
               Inr (map (Pair pa)
                      (fragment (mtu s)
                         \<lparr>dest_eid = destination_eid, src_eid = own_eid s, msg_tag = t,
                          pkt_seq = 0, som = True, eom = True, tag_owner = True, payload = []\<rparr>
                         True 0 bytes),
                    s\<lparr>tags_in_flight := (destination_eid, t) # tags_in_flight s,
                      next_tag := t + 1\<rparr>)))"

subsection \<open>Reassembly\<close>

text \<open>
  Modelled from the spec: \<open>on_packet_received\<close> of section 4.1, whose code is missing,
  on a packet whose header has been decoded. A payload longer than the MTU is
  malformed and dropped; so is a packet from a physical address with no routing entry
  (section 4.4). A start-of-message packet opens a new context for the peer and tag,
  evicting a prior one. A continuation needs a context and must carry the expected
  sequence number and the same source and destination; a mismatch discards the context.
  An end-of-message packet that is accepted completes the message, which is delivered,
  and clears the context.
\<close>

definition on_packet_received :: "packet \<Rightarrow> 'pa \<Rightarrow> 'pa engine \<Rightarrow> 'pa engine \<times> message option" where
  "on_packet_received p source_physical_address s =
     (if mtu s < length (payload p) then (s, None)
      else case eid_of s source_physical_address of
        None \<Rightarrow> (s, None)
      | Some peer \<Rightarrow>
          let key = (peer, msg_tag p) in
          if som p then
            if eom p
            then (s\<lparr>contexts := (contexts s)(key := None)\<rparr>,
                  Some \<lparr>msg_peer = peer, msg_dest = dest_eid p, msg_tag_of = msg_tag p,
                        msg_bytes = payload p\<rparr>)
            else (s\<lparr>contexts := (contexts s)(key \<mapsto>
                     \<lparr>ctx_src = src_eid p, ctx_dest = dest_eid p, buffer = payload p,
                      expected_seq = pkt_seq p + 1\<rparr>)\<rparr>, None)
          else (case contexts s key of
              None \<Rightarrow> (s, None)
            | Some c \<Rightarrow>
                if pkt_seq p \<noteq> expected_seq c \<or> src_eid p \<noteq> ctx_src c \<or> dest_eid p \<noteq> ctx_dest c
                then (s\<lparr>contexts := (contexts s)(key := None)\<rparr>, None)
                else if eom p
                then (s\<lparr>contexts := (contexts s)(key := None)\<rparr>,
                      Some \<lparr>msg_peer = peer, msg_dest = dest_eid p, msg_tag_of = msg_tag p,
                            msg_bytes = buffer c @ payload p\<rparr>)
                else (s\<lparr>contexts := (contexts s)(key \<mapsto>
                         c\<lparr>buffer := buffer c @ payload p, expected_seq := expected_seq c + 1\<rparr>)\<rparr>,
                      None)))"

text \<open>Packets from one physical address handled in order; the messages delivered, in order.\<close>

fun receive_all :: "packet list \<Rightarrow> 'pa \<Rightarrow> 'pa engine \<Rightarrow> 'pa engine \<times> message list" where
  "receive_all [] pa s = (s, [])"
| "receive_all (p # ps) pa s =
     (case on_packet_received p pa s of
        (s', m) \<Rightarrow>
          (case receive_all ps pa s' of
             (s'', ms) \<Rightarrow> (s'', (case m of None \<Rightarrow> [] | Some x \<Rightarrow> [x]) @ ms)))"

text \<open>Two engines on one bus, used to exercise the theorems.\<close>

definition demo_engine :: "eid \<Rightarrow> (nat \<times> eid) list \<Rightarrow> nat engine" where
  "demo_engine own eps =
     \<lparr>own_eid = own, mtu = 2, null_eid = 0, broadcast_eid = 255, endpoints = eps,
      tags_in_flight = [], next_tag = 0, contexts = Map.empty\<rparr>"

section \<open>Properties of the composition root\<close>

subsection \<open>Auxiliary facts\<close>

lemma precedes_split:
  "precedes a b tr \<Longrightarrow> a \<noteq> b \<Longrightarrow> tr = pre @ b # post \<Longrightarrow> a \<in> set pre"
proof (induction tr arbitrary: pre)
  case Nil
  then show ?case by simp
next
  case (Cons x xs)
  show ?case
  proof (cases pre)
    case Nil
    with Cons.prems show ?thesis by (auto split: if_splits)
  next
    case (Cons y ys)
    with Cons.prems Cons.IH [of ys] show ?thesis by (auto split: if_splits)
  qed
qed

lemma ioc_run_stopped: "stopped s \<Longrightarrow> ioc_run es s = s"
  by (cases es) auto

lemma ioc_run_no_signal:
  "\<not> stopped s \<Longrightarrow> set es \<subseteq> {BindingEvent} \<Longrightarrow>
   ioc_run es s = s\<lparr>trace := trace s @ replicate (length es) BindingCallback\<rparr>"
proof (induction es arbitrary: s)
  case Nil
  then show ?case by simp
next
  case (Cons e es)
  from Cons.prems have e: "e = BindingEvent" by simp
  have "\<not> stopped (emit BindingCallback s)" using Cons.prems by (simp add: emit_def)
  with Cons.IH [of "emit BindingCallback s"] Cons.prems e show ?case
    by (simp add: emit_def replicate_app_Cons_same)
qed

lemma ioc_run_signal:
  "\<not> stopped s \<Longrightarrow> \<not> set es \<subseteq> {BindingEvent} \<Longrightarrow>
   ioc_run es s = s\<lparr>bindingPtr := None, stopped := True,
     trace := trace s @ replicate (length (takeWhile (\<lambda>e. e = BindingEvent) es)) BindingCallback
                @ [BindingReset, IocStop]\<rparr>"
proof (induction es arbitrary: s)
  case Nil
  then show ?case by simp
next
  case (Cons e es)
  show ?case
  proof (cases e)
    case (TerminationSignal signum)
    have "stopped (signal_handler signum s)"
      by (simp add: signal_handler_def ioc_stop_def bindingPtr_reset_def emit_def)
    then have "ioc_run es (signal_handler signum s) = signal_handler signum s"
      by (rule ioc_run_stopped)
    with Cons.prems TerminationSignal show ?thesis
      by (simp add: signal_handler_def ioc_stop_def bindingPtr_reset_def emit_def)
  next
    case BindingEvent
    have "\<not> stopped (emit BindingCallback s)" using Cons.prems by (simp add: emit_def)
    with Cons.IH [of "emit BindingCallback s"] Cons.prems BindingEvent show ?thesis
      by (simp add: emit_def replicate_app_Cons_same)
  qed
qed

lemma stop_split:
  assumes "xs @ [a, b] = pre @ b # post" and "b \<notin> set xs" and "a \<noteq> b"
  shows "pre = xs @ [a] \<and> post = []"
  using assms
  by (auto simp: append_eq_append_conv2 append_eq_Cons_conv Cons_eq_append_conv)

lemmas main_simps = main_def Let_def emit_def proc_init_def

lemmas main_splits = cli_result.splits outcome.splits option.splits prod.splits

lemmas run_simps = main_simps smbus_env_def signal_handler_def ioc_stop_def
  bindingPtr_reset_def default_configPath_def mctpBaseObj_def c_str_def

lemma main_shape:
  "(IocStop \<notin> set (trace (fst (main env))) \<and> \<not> stopped (fst (main env)))
   \<or> (\<exists>xs. IocStop \<notin> set xs \<and> trace (fst (main env)) = xs @ [BindingReset, IocStop]
          \<and> stopped (fst (main env)) \<and> bindingPtr (fst (main env)) = None)"
proof (cases "\<not> set (loop_events env) \<subseteq> {BindingEvent}")
  case True
  then show ?thesis
    by (simp add: main_simps ioc_run_signal split: main_splits)
next
  case False
  then show ?thesis
    by (simp add: main_simps ioc_run_no_signal split: main_splits)
qed

lemma main_precedes_started:
  assumes "cli_parse env = Parsed binding path"
    and "getConfiguration env binding (case path of None \<Rightarrow> default_configPath | Some p \<Rightarrow> p)
           = Returns (Some (mctpdName, cfg))"
  shows "precedes (SetDbusName (''xyz.openbmc_project.'' @ mctpdName)) InitializeBinding
           (trace (fst (main env)))"
    and "precedes (RequestName (c_str (''xyz.openbmc_project.'' @ mctpdName))) InitializeBinding
           (trace (fst (main env)))"
    and "precedes (RequestName (c_str (''xyz.openbmc_project.'' @ mctpdName))) (BindingConstructed b)
           (trace (fst (main env)))"
    and "precedes (RequestName (c_str (''xyz.openbmc_project.'' @ mctpdName)))
           (SetDbusName n) (trace (fst (main env)))"
proof -
  show "precedes (SetDbusName (''xyz.openbmc_project.'' @ mctpdName)) InitializeBinding
           (trace (fst (main env)))"
  proof (cases "\<not> set (loop_events env) \<subseteq> {BindingEvent}")
    case True
    with assms show ?thesis
      by (simp add: main_simps ioc_run_signal split: outcome.splits option.splits)
  next
    case False
    with assms show ?thesis
      by (simp add: main_simps ioc_run_no_signal split: outcome.splits option.splits)
  qed
  show "precedes (RequestName (c_str (''xyz.openbmc_project.'' @ mctpdName))) InitializeBinding
           (trace (fst (main env)))"
  proof (cases "\<not> set (loop_events env) \<subseteq> {BindingEvent}")
    case True
    with assms show ?thesis
      by (simp add: main_simps ioc_run_signal split: outcome.splits option.splits)
  next
    case False
    with assms show ?thesis
      by (simp add: main_simps ioc_run_no_signal split: outcome.splits option.splits)
  qed
  show "precedes (RequestName (c_str (''xyz.openbmc_project.'' @ mctpdName))) (BindingConstructed b)
           (trace (fst (main env)))"
  proof (cases "\<not> set (loop_events env) \<subseteq> {BindingEvent}")
    case True
    with assms show ?thesis
      by (simp add: main_simps ioc_run_signal split: outcome.splits option.splits)
  next
    case False
    with assms show ?thesis
      by (simp add: main_simps ioc_run_no_signal split: outcome.splits option.splits)
  qed
  show "precedes (RequestName (c_str (''xyz.openbmc_project.'' @ mctpdName)))
           (SetDbusName n) (trace (fst (main env)))"
  proof (cases "\<not> set (loop_events env) \<subseteq> {BindingEvent}")
    case True
    with assms show ?thesis
      by (simp add: main_simps ioc_run_signal split: outcome.splits option.splits)
  next
    case False
    with assms show ?thesis
      by (simp add: main_simps ioc_run_no_signal split: outcome.splits option.splits)
  qed
qed

lemma main_not_loaded:
  assumes "\<nexists>binding path mctpdName cfg. cli_parse env = Parsed binding path
     \<and> getConfiguration env binding (case path of None \<Rightarrow> default_configPath | Some p \<Rightarrow> p)
           = Returns (Some (mctpdName, cfg))"
  shows "InitializeBinding \<notin> set (trace (fst (main env)))"
  using assms by (auto simp: main_simps split: main_splits)

subsection \<open>Shutdown order\<close>

text \<open>
  Claim C2. When a termination signal is delivered while the event loop runs, the
  binding is destroyed strictly before the loop is stopped, and the loop is never stopped
  while the binding is alive. In every run of \<open>main\<close>: an \<open>IocStop\<close> in the trace is the
  last action and the action just before it is \<open>BindingReset\<close>; once the loop is stopped
  \<open>bindingPtr\<close> is null; and if the loop was entered and a termination signal is among
  the deliveries, the loop has been stopped in exactly that way.
\<close>

theorem signal_resets_binding_before_ioc_stop:
  "(trace (fst (main env)) = pre @ IocStop # post \<longrightarrow>
      (\<exists>pre'. pre = pre' @ [BindingReset]) \<and> post = [])
   \<and> (stopped (fst (main env)) \<longrightarrow>
        bindingPtr (fst (main env)) = None
        \<and> (\<exists>xs. trace (fst (main env)) = xs @ [BindingReset, IocStop]))
   \<and> (IocRun \<in> set (trace (fst (main env))) \<and> TerminationSignal signum \<in> set (loop_events env) \<longrightarrow>
        stopped (fst (main env)))"
proof (intro conjI impI)
  assume tr: "trace (fst (main env)) = pre @ IocStop # post"
  then have "IocStop \<in> set (trace (fst (main env)))" by simp
  with main_shape [of env] obtain xs where xs: "IocStop \<notin> set xs"
    "trace (fst (main env)) = xs @ [BindingReset, IocStop]" by blast
  from xs tr have "xs @ [BindingReset, IocStop] = pre @ IocStop # post" by simp
  from stop_split [OF this xs(1)] show "\<exists>pre'. pre = pre' @ [BindingReset]" "post = []"
    by simp_all
next
  assume "stopped (fst (main env))"
  with main_shape [of env] show "bindingPtr (fst (main env)) = None"
    and "\<exists>xs. trace (fst (main env)) = xs @ [BindingReset, IocStop]" by blast+
next
  assume a: "IocRun \<in> set (trace (fst (main env))) \<and> TerminationSignal signum \<in> set (loop_events env)"
  then have "\<not> set (loop_events env) \<subseteq> {BindingEvent}" by auto
  with a show "stopped (fst (main env))"
    by (auto simp: main_simps ioc_run_signal split: main_splits)
qed

theorem signal_resets_binding_before_ioc_stop_witness:
  "trace (fst (main (smbus_env [BindingEvent, TerminationSignal SIGTERM]))) =
     [SignalsAsyncWait, ConnectionCreated,
      GetConfigurationCalled ''smbus'' ''/usr/share/mctp/mctp_config.json'',
      ObjectServerCreated,
      RequestName ''xyz.openbmc_project.MCTP_SMBus'',
      Log INFO ''Starting MCTP service: xyz.openbmc_project.MCTP_SMBus'',
      BindingConstructed (SMBusBinding ''/xyz/openbmc_project/mctp'' 0),
      SetDbusName ''xyz.openbmc_project.MCTP_SMBus'',
      InitializeBinding, IocRun, BindingCallback, BindingReset] @ IocStop # []
   \<and> IocRun \<in> set (trace (fst (main (smbus_env [BindingEvent, TerminationSignal SIGTERM]))))
   \<and> TerminationSignal SIGTERM \<in> set (loop_events (smbus_env [BindingEvent, TerminationSignal SIGTERM]))
   \<and> stopped (fst (main (smbus_env [BindingEvent, TerminationSignal SIGTERM])))
   \<and> bindingPtr (fst (main (smbus_env [BindingEvent, TerminationSignal SIGTERM]))) = None"
proof -
  let ?E = "smbus_env [BindingEvent, TerminationSignal SIGTERM]"
  let ?pre = "[SignalsAsyncWait, ConnectionCreated,
      GetConfigurationCalled ''smbus'' ''/usr/share/mctp/mctp_config.json'',
      ObjectServerCreated,
      RequestName ''xyz.openbmc_project.MCTP_SMBus'',
      Log INFO ''Starting MCTP service: xyz.openbmc_project.MCTP_SMBus'',
      BindingConstructed (SMBusBinding ''/xyz/openbmc_project/mctp'' (0::nat)),
      SetDbusName ''xyz.openbmc_project.MCTP_SMBus'',
      InitializeBinding, IocRun, BindingCallback, BindingReset] :: (nat, nat) event list"
  have tr: "trace (fst (main ?E)) = ?pre @ IocStop # []"
    by (simp add: run_simps)
  have run: "IocRun \<in> set (trace (fst (main ?E))) \<and> TerminationSignal SIGTERM \<in> set (loop_events ?E)"
    by (simp add: run_simps)
  from signal_resets_binding_before_ioc_stop [of ?E ?pre "[]"] run
  have "stopped (fst (main ?E)) \<and> bindingPtr (fst (main ?E)) = None" by blast
  with tr run show ?thesis by simp
qed

subsection \<open>Failures before the loop\<close>

text \<open>
  Claim C3. When loading the configuration fails (\<open>getConfiguration\<close> throws, or returns
  no configuration), \<open>main\<close> reports an error and returns a non-zero code before any
  binding is constructed or initialised: the return value is \<open>-1\<close>, the last action is an
  error log, \<open>bindingPtr\<close> is still null, and the trace holds no request of the
  service name, no construction of a binding, no \<open>setDbusName\<close>, no
  \<open>initializeBinding\<close> and no entry into the loop.
\<close>

theorem config_failure_exits_before_binding:
  assumes "cli_parse env = Parsed binding path"
    and "configPath = (case path of None \<Rightarrow> default_configPath | Some p \<Rightarrow> p)"
    and "getConfiguration env binding configPath = Throws what
         \<or> getConfiguration env binding configPath = Returns None"
  shows "snd (main env) = Some (- 1) \<and> snd (main env) \<noteq> Some 0
    \<and> (\<exists>msg. last (trace (fst (main env))) = Log ERR msg)
    \<and> bindingPtr (fst (main env)) = None
    \<and> (\<forall>n. RequestName n \<notin> set (trace (fst (main env))))
    \<and> (\<forall>b. BindingConstructed b \<notin> set (trace (fst (main env))))
    \<and> (\<forall>n. SetDbusName n \<notin> set (trace (fst (main env))))
    \<and> InitializeBinding \<notin> set (trace (fst (main env)))
    \<and> IocRun \<notin> set (trace (fst (main env)))"
  using assms by (auto simp: main_simps)

theorem config_failure_exits_before_binding_witness:
  "cli_parse ((smbus_env [TerminationSignal SIGINT])\<lparr>getConfiguration := \<lambda>b p. Throws ''no file''\<rparr>)
     = Parsed ''smbus'' None
   \<and> getConfiguration ((smbus_env [TerminationSignal SIGINT])\<lparr>getConfiguration := \<lambda>b p. Throws ''no file''\<rparr>)
       ''smbus'' default_configPath = Throws ''no file''
   \<and> main ((smbus_env [TerminationSignal SIGINT])\<lparr>getConfiguration := \<lambda>b p. Throws ''no file''\<rparr>) =
       (\<lparr>bindingPtr = None, stopped = False,
         trace = [SignalsAsyncWait, ConnectionCreated,
                  GetConfigurationCalled ''smbus'' ''/usr/share/mctp/mctp_config.json'',
                  Log WARNING ''Exception: no file'',
                  Log ERR ''Invalid configuration; exiting'']\<rparr>, Some (- 1))
   \<and> getConfiguration ((smbus_env [TerminationSignal SIGINT])\<lparr>getConfiguration := \<lambda>b p. Returns None\<rparr>)
       ''smbus'' default_configPath = Returns None
   \<and> main ((smbus_env [TerminationSignal SIGINT])\<lparr>getConfiguration := \<lambda>b p. Returns None\<rparr>) =
       (\<lparr>bindingPtr = None, stopped = False,
         trace = [SignalsAsyncWait, ConnectionCreated,
                  GetConfigurationCalled ''smbus'' ''/usr/share/mctp/mctp_config.json'',
                  Log ERR ''Could not load any configuration; exiting'']\<rparr>, Some (- 1))"
proof -
  let ?E1 = "(smbus_env [TerminationSignal SIGINT])\<lparr>getConfiguration := \<lambda>b p. Throws ''no file''\<rparr>"
  let ?E2 = "(smbus_env [TerminationSignal SIGINT])\<lparr>getConfiguration := \<lambda>b p. Returns None\<rparr>"
  have p1: "cli_parse ?E1 = Parsed ''smbus'' None" and p2: "cli_parse ?E2 = Parsed ''smbus'' None"
    by (simp_all add: smbus_env_def)
  have c: "default_configPath = (case None of None \<Rightarrow> default_configPath | Some p \<Rightarrow> p)"
    by simp
  have g1: "getConfiguration ?E1 ''smbus'' default_configPath = Throws ''no file''
            \<or> getConfiguration ?E1 ''smbus'' default_configPath = Returns None"
    and g2: "getConfiguration ?E2 ''smbus'' default_configPath = Throws []
            \<or> getConfiguration ?E2 ''smbus'' default_configPath = Returns None"
    by (simp_all add: smbus_env_def)
  from config_failure_exits_before_binding [OF p1 c g1]
  have r1: "snd (main ?E1) = Some (- 1)" by simp
  from config_failure_exits_before_binding [OF p2 c g2]
  have r2: "snd (main ?E2) = Some (- 1)" by simp
  have "fst (main ?E1) = \<lparr>bindingPtr = None, stopped = False,
         trace = [SignalsAsyncWait, ConnectionCreated,
                  GetConfigurationCalled ''smbus'' ''/usr/share/mctp/mctp_config.json'',
                  Log WARNING ''Exception: no file'',
                  Log ERR ''Invalid configuration; exiting'']\<rparr>"
    by (simp add: run_simps)
  moreover have "fst (main ?E2) = \<lparr>bindingPtr = None, stopped = False,
         trace = [SignalsAsyncWait, ConnectionCreated,
                  GetConfigurationCalled ''smbus'' ''/usr/share/mctp/mctp_config.json'',
                  Log ERR ''Could not load any configuration; exiting'']\<rparr>"
    by (simp add: run_simps)
  ultimately show ?thesis using r1 r2 p1 g1 g2
    by (simp add: prod_eq_iff)
qed

text \<open>
  Claim C4. When the initialisation of the constructed binding fails (\<open>setDbusName\<close> or
  \<open>initializeBinding\<close> throws), \<open>main\<close> reports the error and returns a non-zero code
  instead of entering the event loop: the return value is \<open>-1\<close>, the trace ends with the
  warning that carries the exception text and the error log, and \<open>ioc.run()\<close> is never
  reached.
\<close>

theorem init_failure_exits_without_loop:
  assumes "cli_parse env = Parsed binding path"
    and "configPath = (case path of None \<Rightarrow> default_configPath | Some p \<Rightarrow> p)"
    and "getConfiguration env binding configPath = Returns (Some (mctpdName, cfg))"
    and "getBindingPtr cfg = Some b"
    and "setDbusName env b (''xyz.openbmc_project.'' @ mctpdName) = Throws what
         \<or> (setDbusName env b (''xyz.openbmc_project.'' @ mctpdName) = Returns ()
             \<and> initializeBinding env b = Throws what)"
  shows "snd (main env) = Some (- 1) \<and> snd (main env) \<noteq> Some 0
    \<and> IocRun \<notin> set (trace (fst (main env)))
    \<and> (\<exists>xs. trace (fst (main env)) =
          xs @ [Log WARNING (''Exception: '' @ what),
                Log ERR ''Failed to intialize MCTP binding; exiting''])"
  using assms by (auto simp: main_simps)

theorem init_failure_exits_without_loop_witness:
  "getBindingPtr (SMBusConfiguration (0::nat)) = Some (SMBusBinding mctpBaseObj 0 :: (nat, nat) MctpBinding)
   \<and> initializeBinding ((smbus_env [TerminationSignal SIGINT])\<lparr>initializeBinding := \<lambda>b. Throws ''no device''\<rparr>)
        (SMBusBinding mctpBaseObj 0) = Throws ''no device''
   \<and> main ((smbus_env [TerminationSignal SIGINT])\<lparr>initializeBinding := \<lambda>b. Throws ''no device''\<rparr>) =
       (\<lparr>bindingPtr = Some (SMBusBinding ''/xyz/openbmc_project/mctp'' 0), stopped = False,
         trace = [SignalsAsyncWait, ConnectionCreated,
                  GetConfigurationCalled ''smbus'' ''/usr/share/mctp/mctp_config.json'',
                  ObjectServerCreated,
                  RequestName ''xyz.openbmc_project.MCTP_SMBus'',
                  Log INFO ''Starting MCTP service: xyz.openbmc_project.MCTP_SMBus'',
                  BindingConstructed (SMBusBinding ''/xyz/openbmc_project/mctp'' 0),
                  SetDbusName ''xyz.openbmc_project.MCTP_SMBus'',
                  InitializeBinding,
                  Log WARNING ''Exception: no device'',
                  Log ERR ''Failed to intialize MCTP binding; exiting'']\<rparr>, Some (- 1))
   \<and> setDbusName ((smbus_env [TerminationSignal SIGINT])\<lparr>setDbusName := \<lambda>b n. Throws ''bad name''\<rparr>)
        (SMBusBinding mctpBaseObj 0) (''xyz.openbmc_project.'' @ ''MCTP_SMBus'') = Throws ''bad name''
   \<and> main ((smbus_env [TerminationSignal SIGINT])\<lparr>setDbusName := \<lambda>b n. Throws ''bad name''\<rparr>) =
       (\<lparr>bindingPtr = Some (SMBusBinding ''/xyz/openbmc_project/mctp'' 0), stopped = False,
         trace = [SignalsAsyncWait, ConnectionCreated,
                  GetConfigurationCalled ''smbus'' ''/usr/share/mctp/mctp_config.json'',
                  ObjectServerCreated,
                  RequestName ''xyz.openbmc_project.MCTP_SMBus'',
                  Log INFO ''Starting MCTP service: xyz.openbmc_project.MCTP_SMBus'',
                  BindingConstructed (SMBusBinding ''/xyz/openbmc_project/mctp'' 0),
                  SetDbusName ''xyz.openbmc_project.MCTP_SMBus'',
                  Log WARNING ''Exception: bad name'',
                  Log ERR ''Failed to intialize MCTP binding; exiting'']\<rparr>, Some (- 1))"
proof -
  let ?E1 = "(smbus_env [TerminationSignal SIGINT])\<lparr>initializeBinding := \<lambda>b. Throws ''no device''\<rparr>"
  let ?E2 = "(smbus_env [TerminationSignal SIGINT])\<lparr>setDbusName := \<lambda>b n. Throws ''bad name''\<rparr>"
  let ?b = "SMBusBinding mctpBaseObj 0 :: (nat, nat) MctpBinding"
  have p1: "cli_parse ?E1 = Parsed ''smbus'' None" and p2: "cli_parse ?E2 = Parsed ''smbus'' None"
    by (simp_all add: smbus_env_def)
  have c: "default_configPath = (case None of None \<Rightarrow> default_configPath | Some p \<Rightarrow> p)"
    by simp
  have g1: "getConfiguration ?E1 ''smbus'' default_configPath
              = Returns (Some (''MCTP_SMBus'', SMBusConfiguration 0))"
    and g2: "getConfiguration ?E2 ''smbus'' default_configPath
              = Returns (Some (''MCTP_SMBus'', SMBusConfiguration 0))"
    by (simp_all add: smbus_env_def)
  have b: "getBindingPtr (SMBusConfiguration (0::nat)) = Some ?b" by simp
  have i1: "setDbusName ?E1 ?b (''xyz.openbmc_project.'' @ ''MCTP_SMBus'') = Throws ''no device''
         \<or> (setDbusName ?E1 ?b (''xyz.openbmc_project.'' @ ''MCTP_SMBus'') = Returns ()
             \<and> initializeBinding ?E1 ?b = Throws ''no device'')"
    and i2: "setDbusName ?E2 ?b (''xyz.openbmc_project.'' @ ''MCTP_SMBus'') = Throws ''bad name''
         \<or> (setDbusName ?E2 ?b (''xyz.openbmc_project.'' @ ''MCTP_SMBus'') = Returns ()
             \<and> initializeBinding ?E2 ?b = Throws ''bad name'')"
    by (simp_all add: smbus_env_def)
  from init_failure_exits_without_loop [OF p1 c g1 b i1]
  have r1: "snd (main ?E1) = Some (- 1)" by simp
  from init_failure_exits_without_loop [OF p2 c g2 b i2]
  have r2: "snd (main ?E2) = Some (- 1)" by simp
  have "fst (main ?E1) = \<lparr>bindingPtr = Some (SMBusBinding ''/xyz/openbmc_project/mctp'' 0), stopped = False,
         trace = [SignalsAsyncWait, ConnectionCreated,
                  GetConfigurationCalled ''smbus'' ''/usr/share/mctp/mctp_config.json'',
                  ObjectServerCreated,
                  RequestName ''xyz.openbmc_project.MCTP_SMBus'',
                  Log INFO ''Starting MCTP service: xyz.openbmc_project.MCTP_SMBus'',
                  BindingConstructed (SMBusBinding ''/xyz/openbmc_project/mctp'' 0),
                  SetDbusName ''xyz.openbmc_project.MCTP_SMBus'',
                  InitializeBinding,
                  Log WARNING ''Exception: no device'',
                  Log ERR ''Failed to intialize MCTP binding; exiting'']\<rparr>"
    by (simp add: run_simps)
  moreover have "fst (main ?E2) = \<lparr>bindingPtr = Some (SMBusBinding ''/xyz/openbmc_project/mctp'' 0), stopped = False,
         trace = [SignalsAsyncWait, ConnectionCreated,
                  GetConfigurationCalled ''smbus'' ''/usr/share/mctp/mctp_config.json'',
                  ObjectServerCreated,
                  RequestName ''xyz.openbmc_project.MCTP_SMBus'',
                  Log INFO ''Starting MCTP service: xyz.openbmc_project.MCTP_SMBus'',
                  BindingConstructed (SMBusBinding ''/xyz/openbmc_project/mctp'' 0),
                  SetDbusName ''xyz.openbmc_project.MCTP_SMBus'',
                  Log WARNING ''Exception: bad name'',
                  Log ERR ''Failed to intialize MCTP binding; exiting'']\<rparr>"
    by (simp add: run_simps)
  ultimately show ?thesis using r1 r2 b
    by (simp add: prod_eq_iff smbus_env_def)
qed

subsection \<open>Exit codes\<close>

text \<open>
  Claim C5. A run that passes configuration loading, binding construction and binding
  initialisation and is then shut down by a termination signal returns 0; a failure of
  configuration loading (an exception, or no configuration), of binding selection
  (\<open>getBindingPtr\<close> yields the null pointer) or of binding initialisation
  (\<open>setDbusName\<close> or \<open>initializeBinding\<close> throws) returns \<open>-1\<close>.
\<close>

theorem main_exit_codes:
  assumes "cli_parse env = Parsed binding path"
    and "configPath = (case path of None \<Rightarrow> default_configPath | Some p \<Rightarrow> p)"
  shows "(getConfiguration env binding configPath = Returns (Some (mctpdName, cfg))
          \<and> getBindingPtr cfg = Some b
          \<and> setDbusName env b (''xyz.openbmc_project.'' @ mctpdName) = Returns ()
          \<and> initializeBinding env b = Returns ()
          \<and> TerminationSignal signum \<in> set (loop_events env)
          \<longrightarrow> snd (main env) = Some 0)
    \<and> ((\<exists>what. getConfiguration env binding configPath = Throws what)
          \<or> getConfiguration env binding configPath = Returns None
          \<longrightarrow> snd (main env) = Some (- 1))
    \<and> (getConfiguration env binding configPath = Returns (Some (mctpdName, cfg))
          \<and> getBindingPtr cfg = None
          \<longrightarrow> snd (main env) = Some (- 1))
    \<and> (getConfiguration env binding configPath = Returns (Some (mctpdName, cfg))
          \<and> getBindingPtr cfg = Some b
          \<and> ((\<exists>what. setDbusName env b (''xyz.openbmc_project.'' @ mctpdName) = Throws what)
               \<or> (\<exists>what. initializeBinding env b = Throws what))
          \<longrightarrow> snd (main env) = Some (- 1))"
proof -
  have "\<not> set (loop_events env) \<subseteq> {BindingEvent}"
    if "TerminationSignal signum \<in> set (loop_events env)"
    using that by auto
  with assms show ?thesis
    by (auto simp: main_simps ioc_run_signal split: outcome.splits)
qed

theorem main_exit_codes_witness:
  "TerminationSignal SIGTERM \<in> set (loop_events (smbus_env [BindingEvent, TerminationSignal SIGTERM]))
   \<and> snd (main (smbus_env [BindingEvent, TerminationSignal SIGTERM])) = Some 0
   \<and> snd (main ((smbus_env [TerminationSignal SIGINT])\<lparr>getConfiguration := \<lambda>b p. Returns None\<rparr>)) = Some (- 1)
   \<and> snd (main ((smbus_env [TerminationSignal SIGINT])
          \<lparr>getConfiguration := \<lambda>b p. Returns (Some (''MCTP_Other'', OtherConfiguration))\<rparr>)) = Some (- 1)
   \<and> snd (main ((smbus_env [TerminationSignal SIGINT])\<lparr>initializeBinding := \<lambda>b. Throws ''no device''\<rparr>)) = Some (- 1)"
proof -
  let ?E0 = "smbus_env [BindingEvent, TerminationSignal SIGTERM]"
  let ?E1 = "(smbus_env [TerminationSignal SIGINT])\<lparr>getConfiguration := \<lambda>b p. Returns None\<rparr>"
  let ?E2 = "(smbus_env [TerminationSignal SIGINT])
          \<lparr>getConfiguration := \<lambda>b p. Returns (Some (''MCTP_Other'', OtherConfiguration))\<rparr>"
  let ?E3 = "(smbus_env [TerminationSignal SIGINT])\<lparr>initializeBinding := \<lambda>b. Throws ''no device''\<rparr>"
  let ?b = "SMBusBinding mctpBaseObj 0 :: (nat, nat) MctpBinding"
  have c: "default_configPath = (case None of None \<Rightarrow> default_configPath | Some p \<Rightarrow> p)"
    by simp
  have p: "cli_parse ?E0 = Parsed ''smbus'' None" "cli_parse ?E1 = Parsed ''smbus'' None"
    "cli_parse ?E2 = Parsed ''smbus'' None" "cli_parse ?E3 = Parsed ''smbus'' None"
    by (simp_all add: smbus_env_def)
  have h0: "getConfiguration ?E0 ''smbus'' default_configPath
              = Returns (Some (''MCTP_SMBus'', SMBusConfiguration 0))
          \<and> getBindingPtr (SMBusConfiguration (0::nat)) = Some ?b
          \<and> setDbusName ?E0 ?b (''xyz.openbmc_project.'' @ ''MCTP_SMBus'') = Returns ()
          \<and> initializeBinding ?E0 ?b = Returns ()
          \<and> TerminationSignal SIGTERM \<in> set (loop_events ?E0)"
    by (simp add: smbus_env_def)
  have h1: "(\<exists>what. getConfiguration ?E1 ''smbus'' default_configPath = Throws what)
          \<or> getConfiguration ?E1 ''smbus'' default_configPath = Returns None"
    by (simp add: smbus_env_def)
  have h2: "getConfiguration ?E2 ''smbus'' default_configPath
              = Returns (Some (''MCTP_Other'', OtherConfiguration))
          \<and> getBindingPtr (OtherConfiguration :: (nat, nat) Configuration) = None"
    by (simp add: smbus_env_def)
  have h3: "getConfiguration ?E3 ''smbus'' default_configPath
              = Returns (Some (''MCTP_SMBus'', SMBusConfiguration 0))
          \<and> getBindingPtr (SMBusConfiguration (0::nat)) = Some ?b
          \<and> ((\<exists>what. setDbusName ?E3 ?b (''xyz.openbmc_project.'' @ ''MCTP_SMBus'') = Throws what)
               \<or> (\<exists>what. initializeBinding ?E3 ?b = Throws what))"
    by (simp add: smbus_env_def)
  from main_exit_codes [OF p(1) c, of "''MCTP_SMBus''" "SMBusConfiguration 0" ?b] h0
  have r0: "snd (main ?E0) = Some 0" by blast
  from main_exit_codes [OF p(2) c] h1
  have r1: "snd (main ?E1) = Some (- 1)" by blast
  from main_exit_codes [OF p(3) c, of "''MCTP_Other''" OtherConfiguration] h2
  have r2: "snd (main ?E2) = Some (- 1)" by blast
  from main_exit_codes [OF p(4) c, of "''MCTP_SMBus''" "SMBusConfiguration 0" ?b] h3
  have r3: "snd (main ?E3) = Some (- 1)" by blast
  from r0 r1 r2 r3 h0 show ?thesis by simp
qed

subsection \<open>Selecting the binding\<close>

text \<open>
  Claim C6. For the two supported kinds of configuration the composition root constructs
  the corresponding binding; for a configuration of any other kind it ends with an
  explicit error rather than carrying on with a null binding: \<open>getBindingPtr\<close> yields
  the null pointer, and \<open>main\<close> answers it with the error log
  \<open>Unable to create MCTP binding\<close> and the return value \<open>-1\<close>, constructing no binding
  and never entering the loop.
\<close>

theorem unsupported_kind_reported:
  "getBindingPtr (SMBusConfiguration smbusConfig) = Some (SMBusBinding mctpBaseObj smbusConfig)
   \<and> getBindingPtr (PcieConfiguration pcieConfig) = Some (PCIeBinding mctpBaseObj pcieConfig)
   \<and> (cli_parse env = Parsed binding path
        \<and> getConfiguration env binding (case path of None \<Rightarrow> default_configPath | Some p \<Rightarrow> p)
            = Returns (Some (mctpdName, cfg))
        \<longrightarrow>
        (if (\<exists>c. cfg = SMBusConfiguration c) \<or> (\<exists>c. cfg = PcieConfiguration c)
         then \<exists>b. getBindingPtr cfg = Some b \<and> BindingConstructed b \<in> set (trace (fst (main env)))
         else getBindingPtr cfg = None
              \<and> snd (main env) = Some (- 1)
              \<and> last (trace (fst (main env))) = Log ERR ''Unable to create MCTP binding''
              \<and> (\<forall>b. BindingConstructed b \<notin> set (trace (fst (main env))))
              \<and> IocRun \<notin> set (trace (fst (main env)))))"
proof (intro conjI impI)
  assume a: "cli_parse env = Parsed binding path
        \<and> getConfiguration env binding (case path of None \<Rightarrow> default_configPath | Some p \<Rightarrow> p)
            = Returns (Some (mctpdName, cfg))"
  show "if (\<exists>c. cfg = SMBusConfiguration c) \<or> (\<exists>c. cfg = PcieConfiguration c)
         then \<exists>b. getBindingPtr cfg = Some b \<and> BindingConstructed b \<in> set (trace (fst (main env)))
         else getBindingPtr cfg = None
              \<and> snd (main env) = Some (- 1)
              \<and> last (trace (fst (main env))) = Log ERR ''Unable to create MCTP binding''
              \<and> (\<forall>b. BindingConstructed b \<notin> set (trace (fst (main env))))
              \<and> IocRun \<notin> set (trace (fst (main env)))"
  proof (cases cfg)
    case (SMBusConfiguration c)
    show ?thesis
    proof (cases "\<not> set (loop_events env) \<subseteq> {BindingEvent}")
      case True
      with a SMBusConfiguration show ?thesis
        by (simp add: main_simps ioc_run_signal split: outcome.splits)
    next
      case False
      with a SMBusConfiguration show ?thesis
        by (simp add: main_simps ioc_run_no_signal split: outcome.splits)
    qed
  next
    case (PcieConfiguration c)
    show ?thesis
    proof (cases "\<not> set (loop_events env) \<subseteq> {BindingEvent}")
      case True
      with a PcieConfiguration show ?thesis
        by (simp add: main_simps ioc_run_signal split: outcome.splits)
    next
      case False
      with a PcieConfiguration show ?thesis
        by (simp add: main_simps ioc_run_no_signal split: outcome.splits)
    qed
  next
    case OtherConfiguration
    with a show ?thesis by (simp add: main_simps)
  qed
qed simp_all

theorem unsupported_kind_reported_witness:
  "getConfiguration ((smbus_env [TerminationSignal SIGINT])
       \<lparr>getConfiguration := \<lambda>b p. Returns (Some (''MCTP_Other'', OtherConfiguration))\<rparr>)
     ''smbus'' default_configPath = Returns (Some (''MCTP_Other'', OtherConfiguration))
   \<and> main ((smbus_env [TerminationSignal SIGINT])
       \<lparr>getConfiguration := \<lambda>b p. Returns (Some (''MCTP_Other'', OtherConfiguration))\<rparr>) =
       (\<lparr>bindingPtr = None, stopped = False,
         trace = [SignalsAsyncWait, ConnectionCreated,
                  GetConfigurationCalled ''smbus'' ''/usr/share/mctp/mctp_config.json'',
                  ObjectServerCreated,
                  RequestName ''xyz.openbmc_project.MCTP_Other'',
                  Log INFO ''Starting MCTP service: xyz.openbmc_project.MCTP_Other'',
                  Log ERR ''Unable to create MCTP binding'']\<rparr>, Some (- 1))
   \<and> BindingConstructed (SMBusBinding mctpBaseObj 0)
        \<in> set (trace (fst (main (smbus_env [TerminationSignal SIGINT]))))
   \<and> BindingConstructed (PCIeBinding mctpBaseObj 5)
        \<in> set (trace (fst (main ((smbus_env [TerminationSignal SIGINT])
             \<lparr>getConfiguration := \<lambda>b p. Returns (Some (''MCTP_PCIe'', PcieConfiguration 5))\<rparr>))))"
proof -
  let ?E0 = "smbus_env [TerminationSignal SIGINT]"
  let ?E1 = "(smbus_env [TerminationSignal SIGINT])
       \<lparr>getConfiguration := \<lambda>b p. Returns (Some (''MCTP_Other'', OtherConfiguration))\<rparr>"
  let ?E2 = "(smbus_env [TerminationSignal SIGINT])
       \<lparr>getConfiguration := \<lambda>b p. Returns (Some (''MCTP_PCIe'', PcieConfiguration 5))\<rparr>"
  have h0: "cli_parse ?E0 = Parsed ''smbus'' None
     \<and> getConfiguration ?E0 ''smbus'' (case None of None \<Rightarrow> default_configPath | Some p \<Rightarrow> p)
         = Returns (Some (''MCTP_SMBus'', SMBusConfiguration 0))"
    by (simp add: smbus_env_def)
  have h1: "cli_parse ?E1 = Parsed ''smbus'' None
     \<and> getConfiguration ?E1 ''smbus'' (case None of None \<Rightarrow> default_configPath | Some p \<Rightarrow> p)
         = Returns (Some (''MCTP_Other'', OtherConfiguration))"
    by (simp add: smbus_env_def)
  have h2: "cli_parse ?E2 = Parsed ''smbus'' None
     \<and> getConfiguration ?E2 ''smbus'' (case None of None \<Rightarrow> default_configPath | Some p \<Rightarrow> p)
         = Returns (Some (''MCTP_PCIe'', PcieConfiguration 5))"
    by (simp add: smbus_env_def)
  from unsupported_kind_reported [of _ _ ?E0 "''smbus''" None "''MCTP_SMBus''" "SMBusConfiguration 0"] h0
  have r0: "BindingConstructed (SMBusBinding mctpBaseObj 0) \<in> set (trace (fst (main ?E0)))"
    by simp
  from unsupported_kind_reported [of _ _ ?E2 "''smbus''" None "''MCTP_PCIe''" "PcieConfiguration 5"] h2
  have r2: "BindingConstructed (PCIeBinding mctpBaseObj 5) \<in> set (trace (fst (main ?E2)))"
    by simp
  from unsupported_kind_reported [of _ _ ?E1 "''smbus''" None "''MCTP_Other''" OtherConfiguration] h1
  have r1: "snd (main ?E1) = Some (- 1)"
    by simp
  have "fst (main ?E1) = \<lparr>bindingPtr = None, stopped = False,
         trace = [SignalsAsyncWait, ConnectionCreated,
                  GetConfigurationCalled ''smbus'' ''/usr/share/mctp/mctp_config.json'',
                  ObjectServerCreated,
                  RequestName ''xyz.openbmc_project.MCTP_Other'',
                  Log INFO ''Starting MCTP service: xyz.openbmc_project.MCTP_Other'',
                  Log ERR ''Unable to create MCTP binding'']\<rparr>"
    by (simp add: run_simps)
  with r0 r1 r2 h1 show ?thesis by (simp add: prod_eq_iff)
qed

subsection \<open>The service name\<close>

text \<open>
  Claim C7. The service identity is handed to the binding at startup: \<open>main\<close> builds
  \<open>xyz.openbmc_project.\<close> followed by the name that came with the loaded configuration
  and passes it to \<open>setDbusName\<close> before \<open>initializeBinding\<close> is invoked. Whenever
  \<open>initializeBinding\<close> occurs in a run, a configuration was loaded and \<open>setDbusName\<close>
  with that very name occurs earlier; and once a binding has been constructed,
  \<open>setDbusName\<close> is called, with no other name than this one.
\<close>

theorem service_name_set_before_initialize:
  "(trace (fst (main env)) = pre @ InitializeBinding # post \<longrightarrow>
      (\<exists>binding path mctpdName cfg.
         cli_parse env = Parsed binding path
         \<and> getConfiguration env binding (case path of None \<Rightarrow> default_configPath | Some p \<Rightarrow> p)
             = Returns (Some (mctpdName, cfg))
         \<and> SetDbusName (''xyz.openbmc_project.'' @ mctpdName) \<in> set pre))
   \<and> (cli_parse env = Parsed binding path
        \<and> getConfiguration env binding (case path of None \<Rightarrow> default_configPath | Some p \<Rightarrow> p)
             = Returns (Some (mctpdName, cfg))
        \<and> getBindingPtr cfg = Some b
        \<longrightarrow> SetDbusName (''xyz.openbmc_project.'' @ mctpdName) \<in> set (trace (fst (main env)))
            \<and> (\<forall>n. SetDbusName n \<in> set (trace (fst (main env)))
                  \<longrightarrow> n = ''xyz.openbmc_project.'' @ mctpdName))"
proof (rule conjI; rule impI)
  assume tr: "trace (fst (main env)) = pre @ InitializeBinding # post"
  then have "InitializeBinding \<in> set (trace (fst (main env)))" by simp
  with main_not_loaded [of env] obtain binding path mctpdName cfg
    where l: "cli_parse env = Parsed binding path"
      "getConfiguration env binding (case path of None \<Rightarrow> default_configPath | Some p \<Rightarrow> p)
           = Returns (Some (mctpdName, cfg))" by blast
  from precedes_split [OF main_precedes_started(1) [OF l] _ tr]
  have "SetDbusName (''xyz.openbmc_project.'' @ mctpdName) \<in> set pre" by simp
  with l show "\<exists>binding path mctpdName cfg.
         cli_parse env = Parsed binding path
         \<and> getConfiguration env binding (case path of None \<Rightarrow> default_configPath | Some p \<Rightarrow> p)
             = Returns (Some (mctpdName, cfg))
         \<and> SetDbusName (''xyz.openbmc_project.'' @ mctpdName) \<in> set pre" by blast
next
  assume a: "cli_parse env = Parsed binding path
        \<and> getConfiguration env binding (case path of None \<Rightarrow> default_configPath | Some p \<Rightarrow> p)
             = Returns (Some (mctpdName, cfg))
        \<and> getBindingPtr cfg = Some b"
  show "SetDbusName (''xyz.openbmc_project.'' @ mctpdName) \<in> set (trace (fst (main env)))
            \<and> (\<forall>n. SetDbusName n \<in> set (trace (fst (main env)))
                  \<longrightarrow> n = ''xyz.openbmc_project.'' @ mctpdName)"
  proof (cases "\<not> set (loop_events env) \<subseteq> {BindingEvent}")
    case True
    with a show ?thesis
      by (simp add: main_simps ioc_run_signal split: outcome.splits)
  next
    case False
    with a show ?thesis
      by (simp add: main_simps ioc_run_no_signal split: outcome.splits)
  qed
qed

theorem service_name_set_before_initialize_witness:
  "trace (fst (main (smbus_env [TerminationSignal SIGINT]))) =
     [SignalsAsyncWait, ConnectionCreated,
      GetConfigurationCalled ''smbus'' ''/usr/share/mctp/mctp_config.json'',
      ObjectServerCreated,
      RequestName ''xyz.openbmc_project.MCTP_SMBus'',
      Log INFO ''Starting MCTP service: xyz.openbmc_project.MCTP_SMBus'',
      BindingConstructed (SMBusBinding ''/xyz/openbmc_project/mctp'' 0),
      SetDbusName ''xyz.openbmc_project.MCTP_SMBus'']
     @ InitializeBinding # [IocRun, BindingReset, IocStop]
   \<and> getConfiguration (smbus_env [TerminationSignal SIGINT]) ''smbus'' default_configPath
       = Returns (Some (''MCTP_SMBus'', SMBusConfiguration 0))
   \<and> SetDbusName (''xyz.openbmc_project.'' @ ''MCTP_SMBus'')
       \<in> set (trace (fst (main (smbus_env [TerminationSignal SIGINT]))))"
proof -
  let ?E = "smbus_env [TerminationSignal SIGINT]"
  let ?pre = "[SignalsAsyncWait, ConnectionCreated,
      GetConfigurationCalled ''smbus'' ''/usr/share/mctp/mctp_config.json'',
      ObjectServerCreated,
      RequestName ''xyz.openbmc_project.MCTP_SMBus'',
      Log INFO ''Starting MCTP service: xyz.openbmc_project.MCTP_SMBus'',
      BindingConstructed (SMBusBinding ''/xyz/openbmc_project/mctp'' (0::nat)),
      SetDbusName ''xyz.openbmc_project.MCTP_SMBus''] :: (nat, nat) event list"
  have tr: "trace (fst (main ?E)) = ?pre @ InitializeBinding # [IocRun, BindingReset, IocStop]"
    by (simp add: run_simps)
  have h: "cli_parse ?E = Parsed ''smbus'' None
        \<and> getConfiguration ?E ''smbus'' (case None of None \<Rightarrow> default_configPath | Some p \<Rightarrow> p)
             = Returns (Some (''MCTP_SMBus'', SMBusConfiguration 0))
        \<and> getBindingPtr (SMBusConfiguration (0::nat))
             = Some (SMBusBinding mctpBaseObj 0 :: (nat, nat) MctpBinding)"
    by (simp add: smbus_env_def)
  from service_name_set_before_initialize
         [of ?E ?pre "[IocRun, BindingReset, IocStop]" "''smbus''" None "''MCTP_SMBus''"
             "SMBusConfiguration 0" "SMBusBinding mctpBaseObj 0"] h
  have "SetDbusName (''xyz.openbmc_project.'' @ ''MCTP_SMBus'') \<in> set (trace (fst (main ?E)))"
    by blast
  with tr h show ?thesis by simp
qed

text \<open>
  Claim C10. In every run in which the configuration loads, \<open>main\<close> requests the
  service name on the bus before the binding is constructed and before
  \<open>setDbusName\<close> or \<open>initializeBinding\<close> is called; so a failure to construct or to
  initialise the binding returns \<open>-1\<close> only after the name has been requested: the
  request stands in the trace before the closing error log. The name requested is
  what \<open>request_name\<close> reads from \<open>mctpServiceName.c_str()\<close>, while \<open>setDbusName\<close>
  is called with \<open>mctpServiceName\<close> itself.
\<close>

theorem request_name_before_binding:
  assumes "cli_parse env = Parsed binding path"
    and "getConfiguration env binding (case path of None \<Rightarrow> default_configPath | Some p \<Rightarrow> p)
           = Returns (Some (mctpdName, cfg))"
    and "mctpServiceName = ''xyz.openbmc_project.'' @ mctpdName"
  shows "RequestName (c_str mctpServiceName) \<in> set (trace (fst (main env)))
    \<and> (\<forall>pre post b. trace (fst (main env)) = pre @ BindingConstructed b # post
          \<longrightarrow> RequestName (c_str mctpServiceName) \<in> set pre)
    \<and> (\<forall>pre post n. trace (fst (main env)) = pre @ SetDbusName n # post
          \<longrightarrow> RequestName (c_str mctpServiceName) \<in> set pre)
    \<and> (\<forall>pre post. trace (fst (main env)) = pre @ InitializeBinding # post
          \<longrightarrow> RequestName (c_str mctpServiceName) \<in> set pre)
    \<and> (getBindingPtr cfg = None
         \<or> (\<exists>b what. getBindingPtr cfg = Some b
               \<and> (setDbusName env b mctpServiceName = Throws what
                    \<or> initializeBinding env b = Throws what))
         \<longrightarrow> snd (main env) = Some (- 1)
             \<and> (\<exists>msg. last (trace (fst (main env))) = Log ERR msg)
             \<and> RequestName (c_str mctpServiceName) \<in> set (butlast (trace (fst (main env)))))"
proof (intro conjI allI impI)
  show "RequestName (c_str mctpServiceName) \<in> set (trace (fst (main env)))"
  proof (cases "\<not> set (loop_events env) \<subseteq> {BindingEvent}")
    case True
    with assms show ?thesis
      by (simp add: main_simps ioc_run_signal split: outcome.splits option.splits)
  next
    case False
    with assms show ?thesis
      by (simp add: main_simps ioc_run_no_signal split: outcome.splits option.splits)
  qed
next
  fix pre post b
  assume "trace (fst (main env)) = pre @ BindingConstructed b # post"
  from precedes_split [OF main_precedes_started(3) [OF assms(1,2)] _ this] assms(3)
  show "RequestName (c_str mctpServiceName) \<in> set pre" by simp
next
  fix pre post n
  assume "trace (fst (main env)) = pre @ SetDbusName n # post"
  from precedes_split [OF main_precedes_started(4) [OF assms(1,2)] _ this] assms(3)
  show "RequestName (c_str mctpServiceName) \<in> set pre" by simp
next
  fix pre post
  assume "trace (fst (main env)) = pre @ InitializeBinding # post"
  from precedes_split [OF main_precedes_started(2) [OF assms(1,2)] _ this] assms(3)
  show "RequestName (c_str mctpServiceName) \<in> set pre" by simp
next
  assume f: "getBindingPtr cfg = None
         \<or> (\<exists>b what. getBindingPtr cfg = Some b
               \<and> (setDbusName env b mctpServiceName = Throws what
                    \<or> initializeBinding env b = Throws what))"
  with assms show "snd (main env) = Some (- 1)"
    by (auto simp: main_simps split: outcome.splits)
  from f assms
  show "\<exists>msg. last (trace (fst (main env))) = Log ERR msg"
    by (auto simp: main_simps split: outcome.splits)
  from f assms
  show "RequestName (c_str mctpServiceName) \<in> set (butlast (trace (fst (main env))))"
    by (auto simp: main_simps split: outcome.splits)
qed

theorem request_name_before_binding_witness:
  "trace (fst (main ((smbus_env [TerminationSignal SIGINT])
       \<lparr>getConfiguration := \<lambda>b p. Returns (Some (''MCTP'' @ CHR 0x00 # ''SMBus'', SMBusConfiguration 0)),
        initializeBinding := \<lambda>b. Throws ''no device''\<rparr>))) =
     [SignalsAsyncWait, ConnectionCreated,
      GetConfigurationCalled ''smbus'' ''/usr/share/mctp/mctp_config.json'',
      ObjectServerCreated,
      RequestName ''xyz.openbmc_project.MCTP'',
      Log INFO ''Starting MCTP service: xyz.openbmc_project.MCTP'']
     @ BindingConstructed (SMBusBinding ''/xyz/openbmc_project/mctp'' 0) #
     [SetDbusName (''xyz.openbmc_project.MCTP'' @ CHR 0x00 # ''SMBus''),
      InitializeBinding,
      Log WARNING ''Exception: no device'',
      Log ERR ''Failed to intialize MCTP binding; exiting'']
   \<and> c_str (''xyz.openbmc_project.'' @ ''MCTP'' @ CHR 0x00 # ''SMBus'') = ''xyz.openbmc_project.MCTP''
   \<and> initializeBinding ((smbus_env [TerminationSignal SIGINT])
       \<lparr>getConfiguration := \<lambda>b p. Returns (Some (''MCTP'' @ CHR 0x00 # ''SMBus'', SMBusConfiguration 0)),
        initializeBinding := \<lambda>b. Throws ''no device''\<rparr>)
        (SMBusBinding mctpBaseObj 0) = Throws ''no device''
   \<and> snd (main ((smbus_env [TerminationSignal SIGINT])
       \<lparr>getConfiguration := \<lambda>b p. Returns (Some (''MCTP'' @ CHR 0x00 # ''SMBus'', SMBusConfiguration 0)),
        initializeBinding := \<lambda>b. Throws ''no device''\<rparr>))
        = Some (- 1)
   \<and> RequestName ''xyz.openbmc_project.MCTP'' \<in> set
       [SignalsAsyncWait, ConnectionCreated,
        GetConfigurationCalled ''smbus'' ''/usr/share/mctp/mctp_config.json'',
        ObjectServerCreated,
        RequestName ''xyz.openbmc_project.MCTP'',
        Log INFO ''Starting MCTP service: xyz.openbmc_project.MCTP'']"
proof -
  let ?E = "(smbus_env [TerminationSignal SIGINT])
       \<lparr>getConfiguration := \<lambda>b p. Returns (Some (''MCTP'' @ CHR 0x00 # ''SMBus'', SMBusConfiguration 0)),
        initializeBinding := \<lambda>b. Throws ''no device''\<rparr>"
  let ?b = "SMBusBinding mctpBaseObj 0 :: (nat, nat) MctpBinding"
  let ?pre = "[SignalsAsyncWait, ConnectionCreated,
      GetConfigurationCalled ''smbus'' ''/usr/share/mctp/mctp_config.json'',
      ObjectServerCreated,
      RequestName ''xyz.openbmc_project.MCTP'',
      Log INFO ''Starting MCTP service: xyz.openbmc_project.MCTP''] :: (nat, nat) event list"
  let ?post = "[SetDbusName (''xyz.openbmc_project.MCTP'' @ CHR 0x00 # ''SMBus''),
      InitializeBinding,
      Log WARNING ''Exception: no device'',
      Log ERR ''Failed to intialize MCTP binding; exiting''] :: (nat, nat) event list"
  have p: "cli_parse ?E = Parsed ''smbus'' None"
    by (simp add: smbus_env_def)
  have g: "getConfiguration ?E ''smbus'' (case None of None \<Rightarrow> default_configPath | Some p \<Rightarrow> p)
             = Returns (Some (''MCTP'' @ CHR 0x00 # ''SMBus'', SMBusConfiguration 0))"
    by (simp add: smbus_env_def)
  have c: "c_str (''xyz.openbmc_project.'' @ ''MCTP'' @ CHR 0x00 # ''SMBus'') = ''xyz.openbmc_project.MCTP''"
    by (simp add: c_str_def)
  have tr: "trace (fst (main ?E)) = ?pre @ BindingConstructed ?b # ?post"
    by (simp add: run_simps)
  have f: "getBindingPtr (SMBusConfiguration (0::nat)) = Some ?b
           \<and> initializeBinding ?E ?b = Throws ''no device''"
    by (simp add: smbus_env_def)
  note r = request_name_before_binding [OF p g refl]
  from r tr have "RequestName (c_str (''xyz.openbmc_project.'' @ ''MCTP'' @ CHR 0x00 # ''SMBus'')) \<in> set ?pre"
    by blast
  then have "RequestName ''xyz.openbmc_project.MCTP'' \<in> set ?pre"
    by (simp only: c)
  moreover from r f have "snd (main ?E) = Some (- 1)" by blast
  ultimately show ?thesis using tr f c by (simp add: mctpBaseObj_def)
qed

section \<open>Properties of the Protocol Engine\<close>

subsection \<open>Auxiliary facts about fragments and contexts\<close>

lemma receive_continuation:
  assumes "\<not> first" and "eid_of r pa = Some peer" and "m \<le> mtu r"
    and "m = 0 \<longrightarrow> bytes = []"
    and "contexts r (peer, msg_tag hdr) = Some c" and "expected_seq c = sq"
    and "ctx_src c = src_eid hdr" and "ctx_dest c = dest_eid hdr"
  shows "receive_all (fragment m hdr first sq bytes) pa r =
           (r\<lparr>contexts := (contexts r)((peer, msg_tag hdr) := None)\<rparr>,
            [\<lparr>msg_peer = peer, msg_dest = dest_eid hdr, msg_tag_of = msg_tag hdr,
              msg_bytes = buffer c @ bytes\<rparr>])"
  using assms
proof (induction m hdr first sq bytes arbitrary: r c rule: fragment.induct)
  case (1 m hdr first sq bytes)
  from "1.prems"(1) have f: "first = False" by simp
  have "receive_all (fragment m hdr False sq bytes) pa r =
           (r\<lparr>contexts := (contexts r)((peer, msg_tag hdr) := None)\<rparr>,
            [\<lparr>msg_peer = peer, msg_dest = dest_eid hdr, msg_tag_of = msg_tag hdr,
              msg_bytes = buffer c @ bytes\<rparr>])"
  proof (cases "m = 0 \<or> length bytes \<le> m")
    case True
    then have frag: "fragment m hdr False sq bytes
        = [hdr\<lparr>pkt_seq := sq, som := False, eom := True, payload := bytes\<rparr>]"
      by (subst fragment.simps) simp
    from True "1.prems" have "length bytes \<le> mtu r" by auto
    with "1.prems" show ?thesis
      by (simp add: frag on_packet_received_def Let_def fun_upd_def)
  next
    case False
    then have frag: "fragment m hdr False sq bytes
        = hdr\<lparr>pkt_seq := sq, som := False, eom := False, payload := take m bytes\<rparr>
          # fragment m hdr False (sq + 1) (drop m bytes)"
      by (subst fragment.simps) simp
    let ?c = "c\<lparr>buffer := buffer c @ take m bytes, expected_seq := expected_seq c + 1\<rparr>"
    let ?r = "r\<lparr>contexts := (contexts r)((peer, msg_tag hdr) \<mapsto> ?c)\<rparr>"
    from False "1.prems" have step:
      "on_packet_received (hdr\<lparr>pkt_seq := sq, som := False, eom := False, payload := take m bytes\<rparr>) pa r
         = (?r, None)"
      by (simp add: on_packet_received_def Let_def)
    have "receive_all (fragment m hdr False (sq + 1) (drop m bytes)) pa ?r =
           (?r\<lparr>contexts := (contexts ?r)((peer, msg_tag hdr) := None)\<rparr>,
            [\<lparr>msg_peer = peer, msg_dest = dest_eid hdr, msg_tag_of = msg_tag hdr,
              msg_bytes = buffer ?c @ drop m bytes\<rparr>])"
      using False "1.prems"
      by (intro "1.IH") (auto simp: eid_of_def)
    with step show ?thesis
      by (simp add: frag)
  qed
  then show ?case by (simp only: f)
qed

lemma receive_fragments:
  assumes "eid_of r pa = Some peer" and "m \<le> mtu r" and "m = 0 \<longrightarrow> bytes = []"
  shows "receive_all (fragment m hdr True sq bytes) pa r =
           (r\<lparr>contexts := (contexts r)((peer, msg_tag hdr) := None)\<rparr>,
            [\<lparr>msg_peer = peer, msg_dest = dest_eid hdr, msg_tag_of = msg_tag hdr,
              msg_bytes = bytes\<rparr>])"
proof (cases "m = 0 \<or> length bytes \<le> m")
  case True
  then have frag: "fragment m hdr True sq bytes
      = [hdr\<lparr>pkt_seq := sq, som := True, eom := True, payload := bytes\<rparr>]"
    by (subst fragment.simps) simp
  from True assms have "length bytes \<le> mtu r" by auto
  with assms show ?thesis
    by (simp add: frag on_packet_received_def Let_def fun_upd_def)
next
  case False
  then have frag: "fragment m hdr True sq bytes
      = hdr\<lparr>pkt_seq := sq, som := True, eom := False, payload := take m bytes\<rparr>
        # fragment m hdr False (sq + 1) (drop m bytes)"
    by (subst fragment.simps) simp
  let ?c = "\<lparr>ctx_src = src_eid hdr, ctx_dest = dest_eid hdr, buffer = take m bytes,
            expected_seq = sq + 1\<rparr>"
  let ?r = "r\<lparr>contexts := (contexts r)((peer, msg_tag hdr) \<mapsto> ?c)\<rparr>"
  from False assms have step:
    "on_packet_received (hdr\<lparr>pkt_seq := sq, som := True, eom := False, payload := take m bytes\<rparr>) pa r
       = (?r, None)"
    by (simp add: on_packet_received_def Let_def)
  have "receive_all (fragment m hdr False (sq + 1) (drop m bytes)) pa ?r =
         (?r\<lparr>contexts := (contexts ?r)((peer, msg_tag hdr) := None)\<rparr>,
          [\<lparr>msg_peer = peer, msg_dest = dest_eid hdr, msg_tag_of = msg_tag hdr,
            msg_bytes = buffer ?c @ drop m bytes\<rparr>])"
    using False assms
    by (intro receive_continuation) (auto simp: eid_of_def)
  with step show ?thesis
    by (simp add: frag)
qed

lemma fragment_payload_bound:
  assumes "m = 0 \<longrightarrow> bytes = []" and "p \<in> set (fragment m hdr first sq bytes)"
  shows "length (payload p) \<le> m"
  using assms
proof (induction m hdr first sq bytes rule: fragment.induct)
  case (1 m hdr first sq bytes)
  show ?case
  proof (cases "m = 0 \<or> length bytes \<le> m")
    case True
    with "1.prems" show ?thesis
      by (subst (asm) fragment.simps) auto
  next
    case False
    with "1.prems" "1.IH" show ?thesis
      by (subst (asm) fragment.simps) auto
  qed
qed

lemma fragment_count:
  assumes "length bytes \<le> N * m" and "1 \<le> N"
  shows "length (fragment m hdr first sq bytes) \<le> N"
  using assms
proof (induction m hdr first sq bytes arbitrary: N rule: fragment.induct)
  case (1 m hdr first sq bytes)
  show ?case
  proof (cases "m = 0 \<or> length bytes \<le> m")
    case True
    with "1.prems" show ?thesis
      by (subst fragment.simps) simp
  next
    case False
    with "1.prems" have N: "2 \<le> N"
      by (cases "N = 1") auto
    from False "1.prems" have "length (drop m bytes) \<le> (N - 1) * m"
      by (simp add: diff_mult_distrib)
    from "1.IH" [OF False this] N
    have "length (fragment m hdr False (sq + 1) (drop m bytes)) \<le> N - 1" by simp
    with False N show ?thesis
      by (subst fragment.simps) simp
  qed
qed

lemma free_tag_available:
  assumes "(peer, t0) \<notin> set (tags_in_flight s)"
  shows "\<exists>t. free_tag s peer = Some t \<and> (peer, t) \<notin> set (tags_in_flight s)"
proof -
  have "unat (t0 - next_tag s) < 8"
    using unsigned_less [of "t0 - next_tag s", where 'a = nat] by simp
  then have "unat (t0 - next_tag s) \<in> set [0..<8]" by simp
  then have "next_tag s + of_nat (unat (t0 - next_tag s))
      \<in> set (map (\<lambda>i. next_tag s + of_nat i) [0..<8])"
    unfolding set_map by (rule imageI)
  then have "t0 \<in> set (map (\<lambda>i. next_tag s + of_nat i) [0..<8])" by simp
  with assms have "free_tag s peer \<noteq> None"
    unfolding free_tag_def find_None_iff by blast
  then obtain t where t: "free_tag s peer = Some t" by blast
  then have "(peer, t) \<notin> set (tags_in_flight s)"
    unfolding free_tag_def find_Some_iff by blast
  with t show ?thesis by blast
qed

lemma receive_without_context:
  assumes "contexts s (peer, tg) = None" and "eid_of s pa = Some peer"
    and "\<forall>q \<in> set ps. \<not> som q \<and> msg_tag q = tg"
  shows "receive_all ps pa s = (s, [])"
  using assms
proof (induction ps)
  case Nil
  then show ?case by simp
next
  case (Cons q ps)
  then have "on_packet_received q pa s = (s, None)"
    by (simp add: on_packet_received_def Let_def)
  with Cons show ?case by simp
qed

subsection \<open>Round trip\<close>

text \<open>
  Claim C1. For every payload of length \<open>L\<close> with \<open>L \<le> N * MTU\<close> for some
  \<open>N \<ge> 1\<close>, fragmenting it by \<open>submit_outbound\<close> and handing the packets, in order,
  to \<open>on_packet_received\<close> yields exactly the original bytes. The sender needs a
  routing entry for the destination and a tag not in flight to it (otherwise
  \<open>submit_outbound\<close> fails and there is no packet); the receiver sits on the same bus,
  so its MTU is not smaller, and knows the physical address the packets come from. Then
  \<open>submit_outbound\<close> succeeds, every packet carries at most MTU bytes, no more than
  \<open>N\<close> packets are made, and the receiver delivers one message, whose bytes are the
  payload, and keeps no context for it.
\<close>

theorem fragment_reassemble_roundtrip:
  assumes "\<exists>N\<ge>1. length bytes \<le> N * mtu s"
    and "physical_address_of s destination_eid = Some pa"
    and "(destination_eid, t0) \<notin> set (tags_in_flight s)"
    and "mtu s \<le> mtu r"
    and "eid_of r source_pa = Some peer"
  shows "\<exists>pkts t s'.
           submit_outbound destination_eid message_type bytes s = Inr (map (Pair pa) pkts, s')
           \<and> (\<forall>p \<in> set pkts. length (payload p) \<le> mtu s)
           \<and> (\<forall>N\<ge>1. length bytes \<le> N * mtu s \<longrightarrow> length pkts \<le> N)
           \<and> receive_all pkts source_pa r =
                (r\<lparr>contexts := (contexts r)((peer, t) := None)\<rparr>,
                 [\<lparr>msg_peer = peer, msg_dest = destination_eid, msg_tag_of = t,
                   msg_bytes = bytes\<rparr>])"
proof -
  from free_tag_available [OF assms(3)] obtain t where t: "free_tag s destination_eid = Some t"
    by blast
  let ?hdr = "\<lparr>dest_eid = destination_eid, src_eid = own_eid s, msg_tag = t,
               pkt_seq = 0, som = True, eom = True, tag_owner = True, payload = []\<rparr>"
  let ?pkts = "fragment (mtu s) ?hdr True 0 bytes"
  let ?s' = "s\<lparr>tags_in_flight := (destination_eid, t) # tags_in_flight s, next_tag := t + 1\<rparr>"
  from assms(1) have z: "mtu s = 0 \<longrightarrow> bytes = []" by auto
  have sub: "submit_outbound destination_eid message_type bytes s = Inr (map (Pair pa) ?pkts, ?s')"
    using assms(2) t by (simp add: submit_outbound_def)
  have bound: "\<forall>p \<in> set ?pkts. length (payload p) \<le> mtu s"
    using fragment_payload_bound [OF z] by blast
  have count: "\<forall>N\<ge>1. length bytes \<le> N * mtu s \<longrightarrow> length ?pkts \<le> N"
    using fragment_count by blast
  have "receive_all ?pkts source_pa r =
          (r\<lparr>contexts := (contexts r)((peer, msg_tag ?hdr) := None)\<rparr>,
           [\<lparr>msg_peer = peer, msg_dest = dest_eid ?hdr, msg_tag_of = msg_tag ?hdr,
             msg_bytes = bytes\<rparr>])"
    using assms(5,4) z by (rule receive_fragments)
  then have "receive_all ?pkts source_pa r =
          (r\<lparr>contexts := (contexts r)((peer, t) := None)\<rparr>,
           [\<lparr>msg_peer = peer, msg_dest = destination_eid, msg_tag_of = t, msg_bytes = bytes\<rparr>])"
    by simp
  with sub bound count show ?thesis by blast
qed

theorem fragment_reassemble_roundtrip_witness:
  "(\<exists>N\<ge>1. length [1, 2, 3, 4, 5 :: byte] \<le> N * mtu (demo_engine 8 [(30, 9)]))
   \<and> physical_address_of (demo_engine 8 [(30, 9)]) 9 = Some 30
   \<and> (9, 0) \<notin> set (tags_in_flight (demo_engine 8 [(30, 9)]))
   \<and> mtu (demo_engine 8 [(30, 9)]) \<le> mtu (demo_engine 9 [(20, 8)])
   \<and> eid_of (demo_engine 9 [(20, 8)]) 20 = Some 8
   \<and> (\<exists>pkts t s'.
         submit_outbound 9 1 [1, 2, 3, 4, 5] (demo_engine 8 [(30, 9)]) = Inr (map (Pair 30) pkts, s')
         \<and> length pkts \<le> 3
         \<and> snd (receive_all pkts 20 (demo_engine 9 [(20, 8)])) =
              [\<lparr>msg_peer = 8, msg_dest = 9, msg_tag_of = t, msg_bytes = [1, 2, 3, 4, 5]\<rparr>])
   \<and> (case submit_outbound 9 1 [1, 2, 3, 4, 5] (demo_engine 8 [(30, 9)]) of
         Inl err \<Rightarrow> None
       | Inr (pkts, s') \<Rightarrow>
           Some (map (\<lambda>p. (pkt_seq (snd p), som (snd p), eom (snd p), payload (snd p))) pkts,
                 snd (receive_all (map snd pkts) 20 (demo_engine 9 [(20, 8)]))))
      = Some ([(0, True, False, [1, 2]), (1, False, False, [3, 4]), (2, False, True, [5])],
              [\<lparr>msg_peer = 8, msg_dest = 9, msg_tag_of = 0, msg_bytes = [1, 2, 3, 4, 5]\<rparr>])"
proof -
  let ?S = "demo_engine 8 [(30, 9)]"
  let ?R = "demo_engine 9 [(20, 8)]"
  have "length [1, 2, 3, 4, 5 :: byte] \<le> 3 * mtu ?S" by (simp add: demo_engine_def)
  then have h1: "\<exists>N\<ge>1. length [1, 2, 3, 4, 5 :: byte] \<le> N * mtu ?S"
    by (intro exI [of _ 3]) simp
  have h2: "physical_address_of ?S 9 = Some 30"
    by (simp add: physical_address_of_def demo_engine_def)
  have h3: "(9, 0) \<notin> set (tags_in_flight ?S)" by (simp add: demo_engine_def)
  have h4: "mtu ?S \<le> mtu ?R" by (simp add: demo_engine_def)
  have h5: "eid_of ?R 20 = Some 8" by (simp add: eid_of_def demo_engine_def)
  from fragment_reassemble_roundtrip [OF h1 h2 h3 h4 h5, of 1]
  obtain pkts t s' where r:
    "submit_outbound 9 1 [1, 2, 3, 4, 5] ?S = Inr (map (Pair 30) pkts, s')"
    "\<forall>N\<ge>1. length [1, 2, 3, 4, 5 :: byte] \<le> N * mtu ?S \<longrightarrow> length pkts \<le> N"
    "receive_all pkts 20 ?R =
       (?R\<lparr>contexts := (contexts ?R)((8, t) := None)\<rparr>,
        [\<lparr>msg_peer = 8, msg_dest = 9, msg_tag_of = t, msg_bytes = [1, 2, 3, 4, 5]\<rparr>])"
    by blast
  from r(2) have "length pkts \<le> 3" by (simp add: demo_engine_def)
  with r(1,3) have e: "\<exists>pkts t s'.
         submit_outbound 9 1 [1, 2, 3, 4, 5] ?S = Inr (map (Pair 30) pkts, s')
         \<and> length pkts \<le> 3
         \<and> snd (receive_all pkts 20 ?R) =
              [\<lparr>msg_peer = 8, msg_dest = 9, msg_tag_of = t, msg_bytes = [1, 2, 3, 4, 5]\<rparr>]"
    by (intro exI [of _ pkts] exI [of _ t] exI [of _ s']) simp
  have c: "(case submit_outbound 9 1 [1, 2, 3, 4, 5] ?S of
         Inl err \<Rightarrow> None
       | Inr (pkts, s') \<Rightarrow>
           Some (map (\<lambda>p. (pkt_seq (snd p), som (snd p), eom (snd p), payload (snd p))) pkts,
                 snd (receive_all (map snd pkts) 20 ?R)))
      = Some ([(0, True, False, [1, 2]), (1, False, False, [3, 4]), (2, False, True, [5])],
              [\<lparr>msg_peer = 8, msg_dest = 9, msg_tag_of = 0, msg_bytes = [1, 2, 3, 4, 5]\<rparr>])"
    by code_simp
  from h1 h2 h3 h4 h5 e c show ?thesis by blast
qed

subsection \<open>Sequence gaps and duplicates\<close>

text \<open>
  Claim C8. When a reassembly is in progress for a peer and tag and a continuation
  packet arrives whose sequence number is not the expected one (a gap or a duplicate;
  the numbers have two bits, so the comparison is modulo 4), \<open>on_packet_received\<close>
  discards the context for that peer and tag and delivers nothing; further
  continuation packets with that tag deliver nothing either, as there is no context
  left to complete. And nothing corrupted is ever delivered: whenever a message is
  delivered, the packet ends a message and the bytes are the packet's own payload (a
  message of one packet) or the buffer of the live context followed by the payload of
  a packet that carries the expected sequence number.
\<close>

theorem sequence_mismatch_discards_context:
  assumes "eid_of s pa = Some peer"
    and "contexts s (peer, msg_tag p) = Some c"
    and "\<not> som p" and "length (payload p) \<le> mtu s"
    and "pkt_seq p \<noteq> expected_seq c"
  shows "on_packet_received p pa s =
           (s\<lparr>contexts := (contexts s)((peer, msg_tag p) := None)\<rparr>, None)
    \<and> ((\<forall>q \<in> set ps. \<not> som q \<and> msg_tag q = msg_tag p) \<longrightarrow>
          receive_all (p # ps) pa s =
            (s\<lparr>contexts := (contexts s)((peer, msg_tag p) := None)\<rparr>, []))
    \<and> (\<forall>q s' m. on_packet_received q pa s = (s', Some m) \<longrightarrow>
          eom q \<and> msg_peer m = peer
          \<and> (if som q then msg_bytes m = payload q
              else \<exists>c'. contexts s (peer, msg_tag q) = Some c' \<and> pkt_seq q = expected_seq c'
                     \<and> msg_bytes m = buffer c' @ payload q))"
proof (intro conjI impI allI)
  let ?s = "s\<lparr>contexts := (contexts s)((peer, msg_tag p) := None)\<rparr>"
  from assms show step: "on_packet_received p pa s = (?s, None)"
    by (simp add: on_packet_received_def Let_def)
  assume "\<forall>q \<in> set ps. \<not> som q \<and> msg_tag q = msg_tag p"
  moreover have "contexts ?s (peer, msg_tag p) = None" by simp
  moreover from assms(1) have "eid_of ?s pa = Some peer" by (simp add: eid_of_def)
  ultimately have "receive_all ps pa ?s = (?s, [])"
    by (intro receive_without_context) auto
  with step show "receive_all (p # ps) pa s = (?s, [])" by simp
next
  fix q s' m
  assume d: "on_packet_received q pa s = (s', Some m)"
  with assms(1) show "eom q" "msg_peer m = peer"
    "if som q then msg_bytes m = payload q
              else \<exists>c'. contexts s (peer, msg_tag q) = Some c' \<and> pkt_seq q = expected_seq c'
                     \<and> msg_bytes m = buffer c' @ payload q"
    by (auto simp: on_packet_received_def Let_def split: if_splits option.splits)
qed

theorem sequence_mismatch_discards_context_witness:
  "eid_of ((demo_engine 9 [(20, 8)])\<lparr>contexts :=
       [(8, 2) \<mapsto> \<lparr>ctx_src = 8, ctx_dest = 9, buffer = [1, 2], expected_seq = 1\<rparr>]\<rparr>) 20 = Some 8
   \<and> contexts ((demo_engine 9 [(20, 8)])\<lparr>contexts :=
       [(8, 2) \<mapsto> \<lparr>ctx_src = 8, ctx_dest = 9, buffer = [1, 2], expected_seq = 1\<rparr>]\<rparr>) (8, 2)
       = Some \<lparr>ctx_src = 8, ctx_dest = 9, buffer = [1, 2], expected_seq = 1\<rparr>
   \<and> (2 :: packet_seq) \<noteq> 1
   \<and> snd (on_packet_received
         \<lparr>dest_eid = 9, src_eid = 8, msg_tag = 2, pkt_seq = 2, som = False, eom = True,
          tag_owner = True, payload = [5]\<rparr> 20
         ((demo_engine 9 [(20, 8)])\<lparr>contexts :=
            [(8, 2) \<mapsto> \<lparr>ctx_src = 8, ctx_dest = 9, buffer = [1, 2], expected_seq = 1\<rparr>]\<rparr>)) = None
   \<and> contexts (fst (on_packet_received
         \<lparr>dest_eid = 9, src_eid = 8, msg_tag = 2, pkt_seq = 2, som = False, eom = True,
          tag_owner = True, payload = [5]\<rparr> 20
         ((demo_engine 9 [(20, 8)])\<lparr>contexts :=
            [(8, 2) \<mapsto> \<lparr>ctx_src = 8, ctx_dest = 9, buffer = [1, 2], expected_seq = 1\<rparr>]\<rparr>))) (8, 2)
       = None"
proof -
  let ?c = "\<lparr>ctx_src = 8, ctx_dest = 9, buffer = [1, 2], expected_seq = 1\<rparr>"
  let ?S = "(demo_engine 9 [(20, 8)])\<lparr>contexts := [(8, 2) \<mapsto> ?c]\<rparr>"
  let ?p = "\<lparr>dest_eid = 9, src_eid = 8, msg_tag = 2, pkt_seq = 2, som = False, eom = True,
             tag_owner = True, payload = [5]\<rparr>"
  have h1: "eid_of ?S 20 = Some 8" by (simp add: eid_of_def demo_engine_def)
  have h2: "contexts ?S (8, msg_tag ?p) = Some ?c" by simp
  have h3: "\<not> som ?p" by simp
  have h4: "length (payload ?p) \<le> mtu ?S" by (simp add: demo_engine_def)
  have h5: "pkt_seq ?p \<noteq> expected_seq ?c" by simp
  from sequence_mismatch_discards_context [OF h1 h2 h3 h4 h5, of "[]"]
  have "on_packet_received ?p 20 ?S = (?S\<lparr>contexts := (contexts ?S)((8, msg_tag ?p) := None)\<rparr>, None)"
    by blast
  then have "snd (on_packet_received ?p 20 ?S) = None
      \<and> contexts (fst (on_packet_received ?p 20 ?S)) (8, 2) = None"
    by simp
  with h1 h2 h5 show ?thesis by simp
qed

subsection \<open>Auxiliary facts about the EID pool\<close>

lemma unat_of_nat_eid: "n < 256 \<Longrightarrow> unat (of_nat n :: eid) = n"
  by (simp add: unat_of_nat)

lemma set_all_eids: "set all_eids = UNIV"
proof -
  have "w \<in> set all_eids" for w :: eid
  proof -
    have "unat w < 256" using unsigned_less [of w, where 'a = nat] by simp
    then have "unat w \<in> set [0..<256]" by simp
    then have "of_nat (unat w) \<in> set (map of_nat [0..<256] :: eid list)"
      unfolding set_map by (rule imageI)
    then show ?thesis by (simp only: all_eids_def of_nat_unat ucast_id)
  qed
  then show ?thesis by auto
qed

lemma distinct_all_eids: "distinct all_eids"
proof -
  have "inj_on (of_nat :: nat \<Rightarrow> eid) (set [0..<256])"
  proof (rule inj_onI)
    fix x y :: nat
    assume "x \<in> set [0..<256]" "y \<in> set [0..<256]" and eq: "(of_nat x :: eid) = of_nat y"
    then have "x < 256" "y < 256" by simp_all
    with arg_cong [OF eq, of unat] show "x = y" by (simp add: unat_of_nat_eid)
  qed
  then show ?thesis unfolding all_eids_def by (simp add: distinct_map)
qed

lemma sorted_all_eids: "sorted all_eids"
proof -
  have "sorted_wrt (\<lambda>x y. (of_nat x :: eid) \<le> of_nat y) [0..<256]"
  proof (rule sorted_wrt_mono_rel [of _ "(\<le>)"])
    fix x y :: nat
    assume "x \<in> set [0..<256]" "y \<in> set [0..<256]" "x \<le> y"
    then show "(of_nat x :: eid) \<le> of_nat y"
      by (simp add: word_le_nat_alt unat_of_nat_eid)
  qed simp
  then show ?thesis unfolding all_eids_def by (simp add: sorted_map)
qed

lemma set_eid_pool: "set (eid_pool s) = UNIV - {null_eid s, broadcast_eid s}"
  by (auto simp: eid_pool_def set_all_eids)

lemma distinct_eid_pool: "distinct (eid_pool s)"
  by (simp add: eid_pool_def distinct_all_eids)

lemma sorted_eid_pool: "sorted (eid_pool s)"
  unfolding eid_pool_def using sorted_all_eids by (rule sorted_wrt_filter)

lemma length_eid_pool:
  assumes "null_eid s \<noteq> broadcast_eid s"
  shows "length (eid_pool s) = 254"
proof -
  have "length (eid_pool s) = card (set (eid_pool s))"
    by (simp add: distinct_card distinct_eid_pool)
  also have "\<dots> = card (UNIV :: eid set) - card {null_eid s, broadcast_eid s}"
    unfolding set_eid_pool by (rule card_Diff_subset) auto
  also have "\<dots> = 254" using assms by (simp add: card_word)
  finally show ?thesis .
qed

lemma find_sorted_least:
  assumes "find P xs = Some x" and "sorted xs" and "y \<in> set xs" and "P y"
  shows "x \<le> y"
  using assms
proof (induction xs)
  case Nil
  then show ?case by simp
next
  case (Cons a xs)
  then show ?case by (auto split: if_splits)
qed

lemma allocate_eid_Inr:
  assumes "allocate_eid pa s = Inr (e, s')"
  shows "e \<in> set (eid_pool s)" and "e \<notin> eids_in_use s"
    and "s' = s\<lparr>endpoints := endpoints s @ [(pa, e)]\<rparr>"
    and "e' \<in> set (eid_pool s) \<Longrightarrow> e' \<notin> eids_in_use s \<Longrightarrow> e \<le> e'"
proof -
  from assms have f: "find (\<lambda>e. e \<notin> eids_in_use s) (eid_pool s) = Some e"
    and s': "s' = s\<lparr>endpoints := endpoints s @ [(pa, e)]\<rparr>"
    by (auto simp: allocate_eid_def split: option.splits)
  from f show "e \<in> set (eid_pool s)" and "e \<notin> eids_in_use s"
    by (auto simp: find_Some_iff)
  from s' show "s' = s\<lparr>endpoints := endpoints s @ [(pa, e)]\<rparr>" .
  show "e \<le> e'" if "e' \<in> set (eid_pool s)" "e' \<notin> eids_in_use s"
    using find_sorted_least [OF f sorted_eid_pool that] .
qed

lemma allocate_eid_exhausted_iff:
  "allocate_eid pa s = Inl PoolExhausted \<longleftrightarrow> set (eid_pool s) \<subseteq> eids_in_use s"
proof
  assume "allocate_eid pa s = Inl PoolExhausted"
  then have "find (\<lambda>e. e \<notin> eids_in_use s) (eid_pool s) = None"
    by (simp add: allocate_eid_def split: option.splits)
  then show "set (eid_pool s) \<subseteq> eids_in_use s"
    by (auto simp: find_None_iff)
next
  assume "set (eid_pool s) \<subseteq> eids_in_use s"
  then have "find (\<lambda>e. e \<notin> eids_in_use s) (eid_pool s) = None"
    by (auto simp: find_None_iff)
  then show "allocate_eid pa s = Inl PoolExhausted"
    by (simp add: allocate_eid_def)
qed

lemma allocate_eid_free:
  assumes "e \<in> set (eid_pool s)" and "e \<notin> eids_in_use s"
  shows "\<exists>e' s'. allocate_eid pa s = Inr (e', s') \<and> e' \<le> e"
proof (cases "allocate_eid pa s")
  case (Inl err)
  then have "allocate_eid pa s = Inl PoolExhausted" by (cases err) simp
  with assms show ?thesis by (auto simp: allocate_eid_exhausted_iff)
next
  case (Inr r)
  obtain e' s' where r: "r = (e', s')" by (cases r)
  from allocate_eid_Inr(4) [OF Inr [unfolded r] assms] Inr r show ?thesis by simp
qed

lemma allocate_eid_inv:
  assumes "pool_inv s" and "allocate_eid pa s = Inr (e, s')"
  shows "pool_inv s'" and "eid_pool s' = eid_pool s"
    and "length (endpoints s') = Suc (length (endpoints s))"
  using assms(1) allocate_eid_Inr(1-3) [OF assms(2)]
  by (auto simp: pool_inv_def eids_in_use_def eid_pool_def)

lemma allocate_eid_succeeds:
  assumes "pool_inv s" and "length (endpoints s) < length (eid_pool s)"
  shows "\<exists>e s'. allocate_eid pa s = Inr (e, s')"
proof (cases "allocate_eid pa s")
  case (Inl err)
  then have "allocate_eid pa s = Inl PoolExhausted" by (cases err) simp
  then have "set (eid_pool s) \<subseteq> eids_in_use s" by (simp add: allocate_eid_exhausted_iff)
  then have "card (set (eid_pool s)) \<le> card (eids_in_use s)"
    by (rule card_mono [rotated]) (simp add: eids_in_use_def)
  also have "\<dots> \<le> length (endpoints s)"
    unfolding eids_in_use_def by (metis card_length length_map set_map)
  finally show ?thesis using assms(2) by (simp add: distinct_card distinct_eid_pool)
next
  case (Inr r)
  then show ?thesis by (cases r) simp
qed

lemma allocate_all_succeeds:
  assumes "pool_inv s" and "length (endpoints s) + length pas \<le> length (eid_pool s)"
  shows "\<exists>es s'. allocate_all pas s = Inr (es, s') \<and> length es = length pas
           \<and> pool_inv s' \<and> eid_pool s' = eid_pool s
           \<and> endpoints s' = endpoints s @ zip pas es"
  using assms
proof (induction pas arbitrary: s)
  case Nil
  then show ?case by simp
next
  case (Cons pa pas)
  from Cons.prems have "length (endpoints s) < length (eid_pool s)" by simp
  from allocate_eid_succeeds [OF Cons.prems(1) this] obtain e s1
    where a: "allocate_eid pa s = Inr (e, s1)" by blast
  note i = allocate_eid_inv [OF Cons.prems(1) a]
  from i Cons.prems have "length (endpoints s1) + length pas \<le> length (eid_pool s1)" by simp
  from Cons.IH [OF i(1) this] obtain es s2
    where r: "allocate_all pas s1 = Inr (es, s2)" "length es = length pas" "pool_inv s2"
      "eid_pool s2 = eid_pool s1" "endpoints s2 = endpoints s1 @ zip pas es" by blast
  from a r i allocate_eid_Inr(3) [OF a] show ?case by simp
qed

lemma pool_inv_full:
  assumes "pool_inv s" and "length (endpoints s) = length (eid_pool s)"
  shows "allocate_eid pa s = Inl PoolExhausted"
proof -
  have "card (eids_in_use s) = length (endpoints s)"
    using assms(1) unfolding pool_inv_def eids_in_use_def
    by (metis distinct_card length_map set_map)
  with assms have "card (eids_in_use s) = card (set (eid_pool s))"
    by (simp add: distinct_card distinct_eid_pool)
  with assms(1) have "eids_in_use s = set (eid_pool s)"
    unfolding pool_inv_def by (metis List.finite_set card_subset_eq)
  then show ?thesis by (simp add: allocate_eid_exhausted_iff)
qed

lemma release_eid_inv: "pool_inv s \<Longrightarrow> pool_inv (release_eid e s)"
  by (auto simp: pool_inv_def release_eid_def eids_in_use_def eid_pool_def distinct_map_filter)

lemma release_eid_idem: "release_eid e (release_eid e s) = release_eid e s"
  by (simp add: release_eid_def)

lemma release_eid_free: "e \<notin> eids_in_use (release_eid e s)"
  by (auto simp: release_eid_def eids_in_use_def)

lemma eid_pool_release: "eid_pool (release_eid e s) = eid_pool s"
  by (simp add: release_eid_def eid_pool_def)

subsection \<open>Allocation and release\<close>

text \<open>
  Claim C9. \<open>allocate_eid\<close> returns the lowest EID of the pool that is not in use;
  it never gives an EID to two physical addresses that are live together (distinctness
  of the EIDs in the Endpoint Records is kept by allocation and by release, and the
  EID just allocated belongs to the new physical address alone); from an empty table
  and two distinct reserved values, 254 allocations succeed, with distinct EIDs, and the
  next call fails with \<open>PoolExhausted\<close>; \<open>release_eid\<close> leaves the EID not in use, so
  that an allocation after it succeeds with that EID or a lower one, and releasing
  twice is the same as releasing once.
\<close>

theorem eid_pool_allocation:
  "(allocate_eid pa s = Inr (e, s') \<longrightarrow>
      e \<in> set (eid_pool s) \<and> e \<notin> eids_in_use s
      \<and> (\<forall>e'. e' \<in> set (eid_pool s) \<and> e' \<notin> eids_in_use s \<longrightarrow> e \<le> e')
      \<and> endpoints s' = endpoints s @ [(pa, e)])
   \<and> (distinct (map snd (endpoints s)) \<and> allocate_eid pa s = Inr (e, s') \<longrightarrow>
        distinct (map snd (endpoints s'))
        \<and> (\<forall>pa'. (pa', e) \<in> set (endpoints s') \<longrightarrow> pa' = pa))
   \<and> (distinct (map snd (endpoints s)) \<longrightarrow> distinct (map snd (endpoints (release_eid e s))))
   \<and> (endpoints s = [] \<and> null_eid s \<noteq> broadcast_eid s \<and> length pas = 254 \<longrightarrow>
        (\<exists>es s'. allocate_all pas s = Inr (es, s') \<and> length es = 254 \<and> distinct es
           \<and> endpoints s' = zip pas es
           \<and> allocate_eid pa s' = Inl PoolExhausted))
   \<and> e \<notin> eids_in_use (release_eid e s)
   \<and> (e \<in> set (eid_pool s) \<longrightarrow>
        (\<exists>e' s'. allocate_eid pa (release_eid e s) = Inr (e', s') \<and> e' \<le> e))
   \<and> release_eid e (release_eid e s) = release_eid e s"
proof (intro conjI impI)
  assume a: "allocate_eid pa s = Inr (e, s')"
  from allocate_eid_Inr [OF a]
  show "e \<in> set (eid_pool s)" "e \<notin> eids_in_use s"
    "\<forall>e'. e' \<in> set (eid_pool s) \<and> e' \<notin> eids_in_use s \<longrightarrow> e \<le> e'"
    "endpoints s' = endpoints s @ [(pa, e)]"
    by auto
next
  assume a: "distinct (map snd (endpoints s)) \<and> allocate_eid pa s = Inr (e, s')"
  then have al: "allocate_eid pa s = Inr (e, s')" by simp
  from a allocate_eid_Inr(2,3) [OF al]
  show "distinct (map snd (endpoints s'))" "\<forall>pa'. (pa', e) \<in> set (endpoints s') \<longrightarrow> pa' = pa"
    by (auto simp: eids_in_use_def rev_image_eqI)
next
  assume "distinct (map snd (endpoints s))"
  then show "distinct (map snd (endpoints (release_eid e s)))"
    by (simp add: release_eid_def distinct_map_filter)
next
  assume h: "endpoints s = [] \<and> null_eid s \<noteq> broadcast_eid s \<and> length pas = 254"
  then have inv: "pool_inv s" by (simp add: pool_inv_def eids_in_use_def)
  from h have len: "length (eid_pool s) = 254" by (simp add: length_eid_pool)
  with h have "length (endpoints s) + length pas \<le> length (eid_pool s)" by simp
  from allocate_all_succeeds [OF inv this] obtain es s1
    where r: "allocate_all pas s = Inr (es, s1)" "length es = length pas" "pool_inv s1"
      "eid_pool s1 = eid_pool s" "endpoints s1 = endpoints s @ zip pas es" by blast
  from r h have ep: "endpoints s1 = zip pas es" by simp
  with r(2) have es: "map snd (endpoints s1) = es" by simp
  with r(3) have d: "distinct es" by (simp add: pool_inv_def)
  from ep r(2,4) h len have "length (endpoints s1) = length (eid_pool s1)" by simp
  from pool_inv_full [OF r(3) this] have "allocate_eid pa s1 = Inl PoolExhausted" .
  with r h d ep
  show "\<exists>es s'. allocate_all pas s = Inr (es, s') \<and> length es = 254 \<and> distinct es
           \<and> endpoints s' = zip pas es
           \<and> allocate_eid pa s' = Inl PoolExhausted"
    by simp
next
  show "e \<notin> eids_in_use (release_eid e s)" by (rule release_eid_free)
next
  assume "e \<in> set (eid_pool s)"
  then have "e \<in> set (eid_pool (release_eid e s))" by (simp add: eid_pool_release)
  from allocate_eid_free [OF this release_eid_free]
  show "\<exists>e' s'. allocate_eid pa (release_eid e s) = Inr (e', s') \<and> e' \<le> e" .
next
  show "release_eid e (release_eid e s) = release_eid e s" by (rule release_eid_idem)
qed

theorem eid_pool_allocation_witness:
  "(\<exists>s'. allocate_eid (5::nat) (demo_engine 8 [(30, 1), (31, 2), (32, 4)]) = Inr (3, s')
         \<and> endpoints s' = [(30, 1), (31, 2), (32, 4), (5, 3)])
   \<and> 3 \<notin> eids_in_use (demo_engine 8 [(30, 1), (31, 2), (32, 4)])
   \<and> endpoints (demo_engine 8 []) = []
   \<and> null_eid (demo_engine 8 []) \<noteq> broadcast_eid (demo_engine 8 [])
   \<and> length [0..<254] = 254
   \<and> (\<exists>es s'. allocate_all [0..<254] (demo_engine 8 []) = Inr (es, s') \<and> length es = 254
         \<and> distinct es \<and> allocate_eid 254 s' = Inl PoolExhausted)"
proof -
  let ?D = "demo_engine 8 [(30, 1), (31, 2), (32, 4)] :: nat engine"
  let ?E = "demo_engine 8 [] :: nat engine"
  have "(case allocate_eid (5::nat) ?D of
           Inl err \<Rightarrow> None | Inr (e, s') \<Rightarrow> Some e) = Some 3"
    by code_simp
  then obtain s' where a: "allocate_eid 5 ?D = Inr (3, s')"
    by (auto split: sum.splits)
  note t = eid_pool_allocation [of 5 ?D 3 s' "[]", THEN conjunct1, rule_format, OF a]
  from t have ep: "endpoints s' = [(30, 1), (31, 2), (32, 4), (5, 3)]"
    by (simp add: demo_engine_def)
  from t have free: "3 \<notin> eids_in_use ?D" by simp
  have h: "endpoints ?E = [] \<and> null_eid ?E \<noteq> broadcast_eid ?E \<and> length [0..<254] = 254"
    by (simp add: demo_engine_def)
  from eid_pool_allocation [of 254 ?E 0 ?E "[0..<254]"] h
  have "\<exists>es s'. allocate_all [0..<254] ?E = Inr (es, s') \<and> length es = 254
         \<and> distinct es \<and> allocate_eid 254 s' = Inl PoolExhausted"
    by blast
  with a ep free h show ?thesis by blast
qed

end
